theory Spec2Isabelle
  imports Complex_Main "HOL-Library.Multiset" "HOL-Library.Sublist"
    "HOL-Library.Char_ord" "HOL-Library.List_Lexorder"
begin

section \<open>BART.js: the cached station data and the queries on it\<close>

text \<open>
  The module \<^verbatim>\<open>src/BART/BART.js\<close> keeps four cache slots (\<^verbatim>\<open>infoCache\<close>), fills them
  from an HTTP and XML service, and answers queries from the slots. The embedding follows
  the source function by function. What the source gets from outside (the reply of
  \<^verbatim>\<open>httpRequest\<close>, the document \<^verbatim>\<open>xmlParser.parseString\<close> builds, the order in which
  replies arrive, the floating-point operations and the \<^verbatim>\<open>Date\<close> of the host) is an
  argument of the function that uses it.
  The options of a request (\<^verbatim>\<open>buildHttpRequestOptions\<close>), the pass-through query
  \<^verbatim>\<open>status\<close> and the two timers are not modelled: no property below reads them.
\<close>

subsection \<open>Numbers\<close>

text \<open>
  A JavaScript number is a real, one of the two infinities, or \<^verbatim>\<open>NaN\<close>; the two zeros
  are one number. \<^verbatim>\<open>parseFloat\<close> yields \<^verbatim>\<open>NaN\<close> on a text that does not start with a
  number and an infinity on \<^verbatim>\<open>Infinity\<close>.
\<close>

datatype jsnum = Num real | Infinity | NegInfinity | NaN

text \<open>
  \<^verbatim>\<open>a < b\<close> on numbers is exact: false when either side is \<^verbatim>\<open>NaN\<close>, and the order of
  the extended reals otherwise.
\<close>

fun js_less :: "jsnum \<Rightarrow> jsnum \<Rightarrow> bool" where
  "js_less NaN b = False"
| "js_less a NaN = False"
| "js_less (Num x) (Num y) = (x < y)"
| "js_less (Num x) Infinity = True"
| "js_less (Num x) NegInfinity = False"
| "js_less Infinity b = False"
| "js_less NegInfinity NegInfinity = False"
| "js_less NegInfinity b = True"

text \<open>
  The result of an arithmetic operation or of a function of \<^verbatim>\<open>Math\<close> is rounded, and
  for \<^verbatim>\<open>Math.sin\<close>, \<^verbatim>\<open>Math.cos\<close> and \<^verbatim>\<open>Math.atan2\<close> it is an approximation the host
  chooses. The operations \<^verbatim>\<open>getDistance\<close> uses are therefore the members of a host; what
  every host does is to give \<^verbatim>\<open>NaN\<close> when an operand is \<^verbatim>\<open>NaN\<close>.
\<close>

record host =
  host_add :: "jsnum \<Rightarrow> jsnum \<Rightarrow> jsnum"
  host_sub :: "jsnum \<Rightarrow> jsnum \<Rightarrow> jsnum"
  host_mul :: "jsnum \<Rightarrow> jsnum \<Rightarrow> jsnum"
  host_div :: "jsnum \<Rightarrow> jsnum \<Rightarrow> jsnum"
  host_sin :: "jsnum \<Rightarrow> jsnum"
  host_cos :: "jsnum \<Rightarrow> jsnum"
  host_sqrt :: "jsnum \<Rightarrow> jsnum"
  host_atan2 :: "jsnum \<Rightarrow> jsnum \<Rightarrow> jsnum"
  host_PI :: jsnum

definition unary :: "(jsnum \<Rightarrow> jsnum) \<Rightarrow> jsnum \<Rightarrow> jsnum" where
  "unary f x = (if x = NaN then NaN else f x)"

definition binary :: "(jsnum \<Rightarrow> jsnum \<Rightarrow> jsnum) \<Rightarrow> jsnum \<Rightarrow> jsnum \<Rightarrow> jsnum" where
  "binary f x y = (if x = NaN \<or> y = NaN then NaN else f x y)"

text \<open>\<^verbatim>\<open>Number.prototype.toRad\<close>: \<^verbatim>\<open>this * (Math.PI / 180)\<close>.\<close>

definition toRad :: "host \<Rightarrow> jsnum \<Rightarrow> jsnum" where
  "toRad h x = binary (host_mul h) x (binary (host_div h) (host_PI h) (Num 180))"

subsection \<open>getDistance\<close>

definition getDistance :: "host \<Rightarrow> jsnum \<Rightarrow> jsnum \<Rightarrow> jsnum \<Rightarrow> jsnum \<Rightarrow> jsnum" where
  "getDistance h latUser lonUser latStation lonStation =
     (let R = Num 6371;
          dLat = toRad h (binary (host_sub h) latStation latUser);
          dLon = toRad h (binary (host_sub h) lonStation lonUser);
          sLat = unary (host_sin h) (binary (host_div h) dLat (Num 2));
          sLon = unary (host_sin h) (binary (host_div h) dLon (Num 2));
          a = binary (host_add h) (binary (host_mul h) sLat sLat)
                (binary (host_mul h)
                   (binary (host_mul h)
                      (binary (host_mul h)
                         (unary (host_cos h) (toRad h latStation))
                         (unary (host_cos h) (toRad h latUser)))
                      sLon)
                   sLon);
          c = binary (host_mul h) (Num 2)
                (binary (host_atan2 h) (unary (host_sqrt h) a)
                   (unary (host_sqrt h) (binary (host_sub h) (Num 1) a)));
          d = binary (host_mul h) R c
      in binary (host_mul h) d (Num (621371 / 1000000)))"

text \<open>
  Exact operations on numbers, for the trip duration (a difference of whole milliseconds)
  and for the exact host of the examples: \<^verbatim>\<open>NaN\<close> unless the operands are reals.
\<close>

fun num1 :: "(real \<Rightarrow> real) \<Rightarrow> jsnum \<Rightarrow> jsnum" where
  "num1 f (Num x) = Num (f x)"
| "num1 f _ = NaN"

fun num2 :: "(real \<Rightarrow> real \<Rightarrow> real) \<Rightarrow> jsnum \<Rightarrow> jsnum \<Rightarrow> jsnum" where
  "num2 f (Num x) (Num y) = Num (f x y)"
| "num2 f _ _ = NaN"

subsection \<open>Errors and callbacks\<close>

text \<open>
  What a call does: it throws (reading a member of \<^verbatim>\<open>undefined\<close> is a
  \<^verbatim>\<open>TypeError\<close>), it calls back with an error, or it calls back with \<^verbatim>\<open>null\<close> and a
  result.
\<close>

datatype js_error = TypeError

datatype ('e, 'a) outcome = Throws js_error | CallbackError 'e | CallbackResult 'a

subsection \<open>The cache\<close>

text \<open>
  A station of \<^verbatim>\<open>res.root.stations.station\<close>. The coordinates are held as the numbers
  \<^verbatim>\<open>parseFloat\<close> reads from the fields \<^verbatim>\<open>gtfs_latitude\<close> and \<^verbatim>\<open>gtfs_longitude\<close>.
\<close>

record station =
  name :: string
  abbr :: string
  gtfs_latitude :: jsnum
  gtfs_longitude :: jsnum

text \<open>
  The value \<^verbatim>\<open>res.root.stations\<close> that the station list slot holds, by its member
  \<^verbatim>\<open>station\<close>. The parser is called with \<^verbatim>\<open>explicitArray: false\<close>, so the member is an
  array of station objects only when the reply has two stations or more; with one station
  it is that station object, and with none (an empty \<^verbatim>\<open>stations\<close> element is the empty
  string) it is \<^verbatim>\<open>undefined\<close>.
\<close>

datatype stations = NoStation | OneStation station | StationArray "station list"

text \<open>
  The stations that a loop \<^verbatim>\<open>for (n = 0; n < stations.length; n++)\<close> over the member
  visits: \<^verbatim>\<open>undefined.length\<close> throws, and the length of a station object is
  \<^verbatim>\<open>undefined\<close>, so that the loop ends before its first round.
\<close>

fun visited :: "stations \<Rightarrow> js_error + station list" where
  "visited NoStation = Inl TypeError"
| "visited (OneStation s) = Inr []"
| "visited (StationArray xs) = Inr xs"

text \<open>
  A per-station document \<^verbatim>\<open>res.root.stations.station\<close> of the info and access requests;
  the aggregates are sorted on its name. An entry of an aggregate is such a document, or
  \<^verbatim>\<open>undefined\<close> (\<open>None\<close>) when the \<^verbatim>\<open>stations\<close> element of the reply had no station.
\<close>

record detail =
  detail_name :: string
  detail_abbr :: string
  detail_text :: string

text \<open>
  The four slots of \<^verbatim>\<open>infoCache\<close>; \<open>None\<close> is \<^verbatim>\<open>undefined\<close>, the value of each slot
  until its first update. The elevator document is not read by the module; its type is a
  parameter.
\<close>

record 'e infoCache =
  stationList :: "stations option"
  stationInfo :: "detail option list option"
  stationAccess :: "detail option list option"
  elevatorStatus :: "'e option"

definition initialCache :: "'e infoCache" where
  "initialCache =
     \<lparr>stationList = None, stationInfo = None, stationAccess = None, elevatorStatus = None\<rparr>"

subsection \<open>getStationName\<close>

fun findName :: "station list \<Rightarrow> string \<Rightarrow> string option" where
  "findName [] a = None"
| "findName (s # ss) a = (if abbr s = a then Some (name s) else findName ss a)"

text \<open>\<open>Inr None\<close> is the return value \<^verbatim>\<open>undefined\<close>.\<close>

definition getStationName :: "'e infoCache \<Rightarrow> string \<Rightarrow> js_error + string option" where
  "getStationName cache a =
     (case stationList cache of
        None \<Rightarrow> Inl TypeError
      | Some v \<Rightarrow>
          (case visited v of
             Inl e \<Rightarrow> Inl e
           | Inr stations \<Rightarrow> Inr (findName stations a)))"

subsection \<open>getStations\<close>

text \<open>The callback gets the member \<^verbatim>\<open>station\<close> as it is; \<open>NoStation\<close> is \<^verbatim>\<open>undefined\<close>.\<close>

definition getStations :: "'e infoCache \<Rightarrow> ('x, stations) outcome" where
  "getStations cache =
     (case stationList cache of
        None \<Rightarrow> Throws TypeError
      | Some v \<Rightarrow> CallbackResult v)"

subsection \<open>stationByLocation\<close>

text \<open>
  \<^verbatim>\<open>closestStation\<close>: the empty object it starts as, or the copy of a station with the
  member \<^verbatim>\<open>distance\<close> added.
\<close>

datatype closest = EmptyObject | StationAt station jsnum

text \<open>
  The literal \<^verbatim>\<open>999999.9\<close>, the starting value of \<^verbatim>\<open>closestDistance\<close>. Its binary64
  value is the double next above \<open>9999999 / 10\<close>, so a double is below the one exactly when
  it is below the other.
\<close>

definition sentinel :: jsnum where
  "sentinel = Num (9999999 / 10)"

text \<open>
  The loop, with \<^verbatim>\<open>closestStation\<close> and \<^verbatim>\<open>closestDistance\<close> as its state. The
  member \<^verbatim>\<open>distance\<close> is assigned from \<^verbatim>\<open>closestDistance\<close> before
  \<^verbatim>\<open>closestDistance\<close> is updated.
\<close>

fun closestLoop ::
  "host \<Rightarrow> jsnum \<Rightarrow> jsnum \<Rightarrow> station list \<Rightarrow> closest \<times> jsnum \<Rightarrow> closest \<times> jsnum" where
  "closestLoop h userLatitude userLongitude [] st = st"
| "closestLoop h userLatitude userLongitude (thisStation # rest) (closestStation, closestDistance) =
     (let thisDistance =
            getDistance h userLatitude userLongitude
              (gtfs_latitude thisStation) (gtfs_longitude thisStation)
      in if js_less thisDistance closestDistance
         then closestLoop h userLatitude userLongitude rest
                (StationAt thisStation closestDistance, thisDistance)
         else closestLoop h userLatitude userLongitude rest (closestStation, closestDistance))"

text \<open>
  \<open>lat\<close> and \<open>lng\<close> are the numbers \<^verbatim>\<open>parseFloat\<close> reads from the arguments.
\<close>

definition stationByLocation ::
  "host \<Rightarrow> jsnum \<Rightarrow> jsnum \<Rightarrow> 'e infoCache \<Rightarrow> ('x, closest) outcome" where
  "stationByLocation h lat lng cache =
     (case stationList cache of
        None \<Rightarrow> Throws TypeError
      | Some v \<Rightarrow>
          (case visited v of
             Inl e \<Rightarrow> Throws e
           | Inr stations \<Rightarrow>
               CallbackResult (fst (closestLoop h lat lng stations (EmptyObject, sentinel)))))"

subsection \<open>Strings\<close>

text \<open>
  The string methods the module calls, on strings as lists of characters.
  \<^verbatim>\<open>s.indexOf(pat)\<close> is the position of the first occurrence of \<open>pat\<close> in \<open>s\<close>, or -1.
\<close>

fun js_indexOf :: "string \<Rightarrow> string \<Rightarrow> int" where
  "js_indexOf [] pat = (if pat = [] then 0 else - 1)"
| "js_indexOf (c # cs) pat =
     (if prefix pat (c # cs) then 0
      else (let r = js_indexOf cs pat in if r < 0 then - 1 else r + 1))"

text \<open>
  \<^verbatim>\<open>s.replace(pat, rep)\<close> with a string pattern replaces the first occurrence only
  (\<open>rep\<close> without the character \<^verbatim>\<open>$\<close>, as in the module).
\<close>

fun js_replace :: "string \<Rightarrow> string \<Rightarrow> string \<Rightarrow> string" where
  "js_replace [] pat rep = (if pat = [] then rep else [])"
| "js_replace (c # cs) pat rep =
     (if prefix pat (c # cs) then rep @ drop (length pat) (c # cs)
      else c # js_replace cs pat rep)"

text \<open>
  \<^verbatim>\<open>s.split(sep)\<close> cuts \<open>s\<close> at the occurrences of \<open>sep\<close> from the left; \<open>cur\<close> is the
  piece read so far. \<^verbatim>\<open>xs.join(sep)\<close> puts the pieces together again.
\<close>

function splitFrom :: "string \<Rightarrow> string \<Rightarrow> string \<Rightarrow> string list" where
  "splitFrom sep cur [] = [cur]"
| "splitFrom sep cur (c # cs) =
     (if sep \<noteq> [] \<and> prefix sep (c # cs)
      then cur # splitFrom sep [] (drop (length sep) (c # cs))
      else splitFrom sep (cur @ [c]) cs)"
  by pat_completeness auto
termination
proof (relation "measure (\<lambda>(sep, cur, s). length s)")
  show "wf (measure (\<lambda>(sep, cur, s). length s))"
    by simp
next
  fix sep cur cs :: string and c
  assume "sep \<noteq> [] \<and> prefix sep (c # cs)"
  then have "0 < length sep"
    by simp
  then show "((sep, [], drop (length sep) (c # cs)), (sep, cur, c # cs))
      \<in> measure (\<lambda>(sep, cur, s). length s)"
    by simp
next
  fix sep cur cs :: string and c
  show "((sep, cur @ [c], cs), (sep, cur, c # cs)) \<in> measure (\<lambda>(sep, cur, s). length s)"
    by simp
qed

definition js_split :: "string \<Rightarrow> string \<Rightarrow> string list" where
  "js_split s sep = (if sep = [] then map (\<lambda>c. [c]) s else splitFrom sep [] s)"

fun js_join :: "string list \<Rightarrow> string \<Rightarrow> string" where
  "js_join [] sep = []"
| "js_join [x] sep = x"
| "js_join (x # y # ys) sep = x @ sep @ js_join (y # ys) sep"

text \<open>\<^verbatim>\<open>s.trim()\<close>, with the white space of ASCII.\<close>

definition isWhiteSpace :: "char \<Rightarrow> bool" where
  "isWhiteSpace c =
     (c = CHR 0x09 \<or> c = CHR 0x0A \<or> c = CHR 0x0B \<or> c = CHR 0x0C \<or> c = CHR 0x0D \<or> c = CHR '' '')"

definition js_trim :: "string \<Rightarrow> string" where
  "js_trim s = rev (dropWhile isWhiteSpace (rev (dropWhile isWhiteSpace s)))"

subsection \<open>Replies and documents\<close>

text \<open>
  The body of a reply of \<^verbatim>\<open>httpRequest\<close> is a text, or \<^verbatim>\<open>undefined\<close> (\<open>None\<close>) when
  the request failed. \<^verbatim>\<open>xmlParser.parseString\<close> is an argument of each function that
  calls it, a function from the body to what the callback of the parser then reads:
  \<^item> \<open>Failed err\<close>: the parser calls back with the error \<open>err\<close> and no document;
  \<^item> \<open>Unreadable\<close>: the parser throws, or its document lacks a member on the path the
    callback reads, so that the read throws a \<^verbatim>\<open>TypeError\<close>;
  \<^item> \<open>Readable v\<close>: the value \<open>v\<close> at the end of the path the callback reads.
  For the station list the path is \<^verbatim>\<open>res.root.stations\<close>, whose value is \<^verbatim>\<open>undefined\<close>
  (\<open>None\<close>) when the root has no such element; for a station info or access reply it is
  \<^verbatim>\<open>res.root.stations.station\<close>, whose value is \<^verbatim>\<open>undefined\<close> when the \<^verbatim>\<open>stations\<close>
  element has no station.
\<close>

datatype ('x, 'a) parsed = Failed 'x | Unreadable | Readable 'a

text \<open>
  With \<^verbatim>\<open>explicitArray: false\<close> a member of a document is an object when the element
  occurs once and an array when it occurs more often.
\<close>

datatype 'a member = Undefined | Object 'a | Array "'a member list"

fun isArray :: "'a member \<Rightarrow> bool" where
  "isArray (Array xs) = True"
| "isArray _ = False"

subsection \<open>loadElevatorStatus\<close>

text \<open>The callback stores \<^verbatim>\<open>res.root\<close>; the body reaches the parser as it came.\<close>

definition loadElevatorStatus ::
  "(string option \<Rightarrow> ('x, 'e) parsed) \<Rightarrow> string option \<Rightarrow> 'e infoCache \<Rightarrow> js_error + 'e infoCache" where
  "loadElevatorStatus xmlParser body cache =
     (case xmlParser body of
        Readable doc \<Rightarrow> Inr (cache\<lparr>elevatorStatus := Some doc\<rparr>)
      | _ \<Rightarrow> Inl TypeError)"

subsection \<open>getStationInfoAndAccess\<close>

text \<open>
  What the callback of one request pushes on its array: the value of
  \<^verbatim>\<open>res.root.stations.station\<close> parsed from the body, a document or \<^verbatim>\<open>undefined\<close>, after
  the replacement of the name when the URL of the request contains \<^verbatim>\<open>COLS\<close>.
  \<^verbatim>\<open>body.split\<close> on a body that is \<^verbatim>\<open>undefined\<close> throws, and so does the read of
  \<^verbatim>\<open>res.root.stations.station\<close> when the parser gave no document or the document has no
  \<^verbatim>\<open>stations\<close> element.
\<close>

definition stationDetail ::
  "(string option \<Rightarrow> ('x, detail option) parsed) \<Rightarrow> string \<Rightarrow> string option \<Rightarrow>
   js_error + detail option" where
  "stationDetail xmlParser url body =
     (case (if - 1 < js_indexOf url ''COLS''
            then (case body of
                    None \<Rightarrow> Inl TypeError
                  | Some b \<Rightarrow>
                      Inr (Some (js_join (js_split b ''Coliseum/Oakland Airport'') ''Coliseum'')))
            else Inr body) of
        Inl e \<Rightarrow> Inl e
      | Inr body' \<Rightarrow>
          (case xmlParser body' of
             Readable v \<Rightarrow> Inr v
           | _ \<Rightarrow> Inl TypeError))"

text \<open>
  The two batches of \<^verbatim>\<open>async.each\<close>. Each has the array it collects into and the count
  of iterations that called \<^verbatim>\<open>callback()\<close>; the final function of a batch runs when the
  count reaches the number of URLs. \<open>uncaught\<close> lists the errors thrown inside the
  callbacks of requests; nothing in the module catches them.
\<close>

datatype kind = Access | Info

record batch =
  collected :: "detail option list"
  completed :: nat

record 'e fanOut =
  infoCache :: "'e infoCache"
  accessBatch :: batch
  infoBatch :: batch
  uncaught :: "js_error list"

text \<open>
  \<^verbatim>\<open>_.sortBy(array, 'name')\<close>: a stable sort by name, with the entries that are
  \<^verbatim>\<open>undefined\<close> after the documents.
\<close>

definition sortBy_name :: "detail option list \<Rightarrow> detail option list" where
  "sortBy_name xs =
     map Some (sort_key detail_name (List.map_filter (\<lambda>x. x) xs)) @ filter (\<lambda>x. x = None) xs"

definition stationAccessURL :: "station \<Rightarrow> string" where
  "stationAccessURL thisStation = ''stn.aspx?cmd=stnaccess&orig='' @ abbr thisStation"

definition stationInfoURL :: "station \<Rightarrow> string" where
  "stationInfoURL thisStation = ''stn.aspx?cmd=stninfo&orig='' @ abbr thisStation"

text \<open>
  The reply to request \<open>i\<close> of a batch arrives: the callback of the request runs. It leaves
  the state as it is when it throws. After the push it calls \<^verbatim>\<open>callback()\<close>; when that
  was the last iteration, the array is sorted by name and
  stored in the slot of the batch. There is a request for each station of the list, so an
  arrival with \<open>i\<close> beyond the list stands for no reply and changes nothing.
\<close>

definition onReply ::
  "(string option \<Rightarrow> ('x, detail option) parsed) \<Rightarrow> (string option \<Rightarrow> ('x, detail option) parsed) \<Rightarrow>
   (nat \<Rightarrow> string option) \<Rightarrow> (nat \<Rightarrow> string option) \<Rightarrow> station list \<Rightarrow>
   kind \<times> nat \<Rightarrow> 'e fanOut \<Rightarrow> 'e fanOut" where
  "onReply accessParser infoParser accessReply infoReply stations arrival st =
     (case arrival of
        (Access, i) \<Rightarrow>
          (if length stations \<le> i then st
           else (case stationDetail accessParser (stationAccessURL (stations ! i)) (accessReply i) of
                   Inl e \<Rightarrow> st\<lparr>uncaught := uncaught st @ [e]\<rparr>
                 | Inr d \<Rightarrow>
                     (let b = \<lparr>collected = collected (accessBatch st) @ [d],
                               completed = completed (accessBatch st) + 1\<rparr>
                      in if completed b = length stations
                         then st\<lparr>accessBatch := b,
                                infoCache := (infoCache st)
                                  \<lparr>stationAccess := Some (sortBy_name (collected b))\<rparr>\<rparr>
                         else st\<lparr>accessBatch := b\<rparr>)))
      | (Info, i) \<Rightarrow>
          (if length stations \<le> i then st
           else (case stationDetail infoParser (stationInfoURL (stations ! i)) (infoReply i) of
                   Inl e \<Rightarrow> st\<lparr>uncaught := uncaught st @ [e]\<rparr>
                 | Inr d \<Rightarrow>
                     (let b = \<lparr>collected = collected (infoBatch st) @ [d],
                               completed = completed (infoBatch st) + 1\<rparr>
                      in if completed b = length stations
                         then st\<lparr>infoBatch := b,
                                infoCache := (infoCache st)
                                  \<lparr>stationInfo := Some (sortBy_name (collected b))\<rparr>\<rparr>
                         else st\<lparr>infoBatch := b\<rparr>))))"

fun onReplies ::
  "(string option \<Rightarrow> ('x, detail option) parsed) \<Rightarrow> (string option \<Rightarrow> ('x, detail option) parsed) \<Rightarrow>
   (nat \<Rightarrow> string option) \<Rightarrow> (nat \<Rightarrow> string option) \<Rightarrow> station list \<Rightarrow>
   (kind \<times> nat) list \<Rightarrow> 'e fanOut \<Rightarrow> 'e fanOut" where
  "onReplies accessParser infoParser accessReply infoReply stations [] st = st"
| "onReplies accessParser infoParser accessReply infoReply stations (arrival # arrivals) st =
     onReplies accessParser infoParser accessReply infoReply stations arrivals
       (onReply accessParser infoParser accessReply infoReply stations arrival st)"

text \<open>
  The call itself: it reads the member \<^verbatim>\<open>station\<close> of the station list (and throws
  when the slot is \<^verbatim>\<open>undefined\<close>), builds the URLs in a loop over it and starts the two
  batches; \<^verbatim>\<open>async.each\<close> on an empty array of URLs runs the final function at once. \<open>arrivals\<close> is the order in which the replies
  arrive afterwards, \<open>accessReply i\<close> and \<open>infoReply i\<close> the bodies of the replies to the
  requests for station \<open>i\<close>.
\<close>

definition getStationInfoAndAccess ::
  "(string option \<Rightarrow> ('x, detail option) parsed) \<Rightarrow> (string option \<Rightarrow> ('x, detail option) parsed) \<Rightarrow>
   (nat \<Rightarrow> string option) \<Rightarrow> (nat \<Rightarrow> string option) \<Rightarrow> (kind \<times> nat) list \<Rightarrow>
   'e infoCache \<Rightarrow> js_error + 'e fanOut" where
  "getStationInfoAndAccess accessParser infoParser accessReply infoReply arrivals c =
     (case stationList c of
        None \<Rightarrow> Inl TypeError
      | Some v \<Rightarrow>
          (case visited v of
             Inl e \<Rightarrow> Inl e
           | Inr stations \<Rightarrow>
               Inr (onReplies accessParser infoParser accessReply infoReply stations arrivals
                      \<lparr>infoCache = (if stations = []
                                     then c\<lparr>stationAccess := Some [], stationInfo := Some []\<rparr>
                                     else c),
                       accessBatch = \<lparr>collected = [], completed = 0\<rparr>,
                       infoBatch = \<lparr>collected = [], completed = 0\<rparr>,
                       uncaught = []\<rparr>)))"

subsection \<open>loadStationList\<close>

text \<open>
  The callback replaces the name in the body (\<^verbatim>\<open>body.replace\<close> throws on a body that is
  \<^verbatim>\<open>undefined\<close>), stores \<^verbatim>\<open>res.root.stations\<close> and calls
  \<^verbatim>\<open>getStationInfoAndAccess\<close>. \<open>Inl (e, c')\<close>: the callback threw \<open>e\<close> and left the cache
  as \<open>c'\<close>, which has the new station list when the throw came from
  \<^verbatim>\<open>getStationInfoAndAccess\<close>. \<open>Inr st\<close>: the fan-out is under way.
\<close>

definition loadStationList ::
  "(string option \<Rightarrow> ('x, stations option) parsed) \<Rightarrow>
   (string option \<Rightarrow> ('x, detail option) parsed) \<Rightarrow> (string option \<Rightarrow> ('x, detail option) parsed) \<Rightarrow>
   string option \<Rightarrow> (nat \<Rightarrow> string option) \<Rightarrow> (nat \<Rightarrow> string option) \<Rightarrow> (kind \<times> nat) list \<Rightarrow>
   'e infoCache \<Rightarrow> js_error \<times> 'e infoCache + 'e fanOut" where
  "loadStationList xmlParser accessParser infoParser body accessReply infoReply arrivals c =
     (case body of
        None \<Rightarrow> Inl (TypeError, c)
      | Some b \<Rightarrow>
          (case xmlParser (Some (js_replace b ''Coliseum/Oakland Airport'' ''Coliseum'')) of
             Readable stations \<Rightarrow>
               (case getStationInfoAndAccess accessParser infoParser accessReply infoReply arrivals
                       (c\<lparr>stationList := stations\<rparr>) of
                  Inl e \<Rightarrow> Inl (e, c\<lparr>stationList := stations\<rparr>)
                | Inr st \<Rightarrow> Inr st)
           | _ \<Rightarrow> Inl (TypeError, c)))"

subsection \<open>getServiceAnnouncements\<close>

text \<open>The document \<^verbatim>\<open>res.root\<close> of the announcements, with its member \<^verbatim>\<open>bsa\<close>.\<close>

record 'b announcements =
  bsa :: "'b member"

definition getServiceAnnouncements ::
  "(string option \<Rightarrow> ('x, ('b, 'm) announcements_scheme) parsed) \<Rightarrow> string option \<Rightarrow>
   ('x, ('b, 'm) announcements_scheme) outcome" where
  "getServiceAnnouncements xmlParser body =
     (case xmlParser body of
        Failed err \<Rightarrow> CallbackError err
      | Unreadable \<Rightarrow> Throws TypeError
      | Readable doc \<Rightarrow>
          CallbackResult (if \<not> isArray (bsa doc) then doc\<lparr>bsa := Array [bsa doc]\<rparr> else doc))"

subsection \<open>getConnectionData\<close>

text \<open>
  A leg and the trip \<^verbatim>\<open>res.root.schedule.request.trip\<close>, each with the attributes the
  parser puts under \<^verbatim>\<open>details\<close>. A member that is \<open>None\<close> is not set.
\<close>

record leg =
  origin :: string
  destination :: string
  trainHeadStation :: string
  originName :: "string option"
  destinationName :: "string option"
  trainHeadStationName :: "string option"

record trip =
  origTimeDate :: string
  origTimeMin :: string
  destTimeDate :: string
  destTimeMin :: string
  duration :: "jsnum option"
  legs :: "leg member"

text \<open>The body of the loop over the legs; \<^verbatim>\<open>leg.details\<close> of anything but an object throws.\<close>

definition enrichLeg :: "'e infoCache \<Rightarrow> leg member \<Rightarrow> js_error + leg member" where
  "enrichLeg c m =
     (case m of
        Object l \<Rightarrow>
          (case getStationName c (origin l) of
             Inl e \<Rightarrow> Inl e
           | Inr n1 \<Rightarrow>
               (case getStationName c (destination l) of
                  Inl e \<Rightarrow> Inl e
                | Inr n2 \<Rightarrow>
                    (case getStationName c (trainHeadStation l) of
                       Inl e \<Rightarrow> Inl e
                     | Inr n3 \<Rightarrow>
                         Inr (Object (l\<lparr>originName := n1, destinationName := n2,
                                         trainHeadStationName := n3\<rparr>)))))
      | _ \<Rightarrow> Inl TypeError)"

fun enrichLegs :: "'e infoCache \<Rightarrow> leg member list \<Rightarrow> js_error + leg member list" where
  "enrichLegs c [] = Inr []"
| "enrichLegs c (m # ms) =
     (case enrichLeg c m of
        Inl e \<Rightarrow> Inl e
      | Inr m' \<Rightarrow> (case enrichLegs c ms of Inl e \<Rightarrow> Inl e | Inr ms' \<Rightarrow> Inr (m' # ms')))"

fun elements :: "'a member \<Rightarrow> 'a member list" where
  "elements (Array xs) = xs"
| "elements m = [m]"

text \<open>
  \<open>Date\<close> is the host's \<^verbatim>\<open>new Date(text)\<close> read as a number: the time in milliseconds,
  or \<^verbatim>\<open>NaN\<close> for an invalid date. The difference of two times is a whole number of
  milliseconds and is taken exactly, as is its division by 60000. \<open>error\<close> and \<open>body\<close> are the reply of the request.
  The result stands for \<^verbatim>\<open>res.root\<close>, of which the callback changes the trip only.
\<close>

definition getConnectionData ::
  "(string \<Rightarrow> jsnum) \<Rightarrow> (string option \<Rightarrow> ('x, trip) parsed) \<Rightarrow> 'x option \<Rightarrow> string option \<Rightarrow>
   'e infoCache \<Rightarrow> ('x, trip) outcome" where
  "getConnectionData Date xmlParser error body c =
     (case error of
        Some e \<Rightarrow> CallbackError e
      | None \<Rightarrow>
          (case xmlParser body of
             Readable t \<Rightarrow>
               (let t1 = t\<lparr>origTimeDate := js_trim (origTimeDate t)\<rparr>
                in case enrichLegs c (elements (legs t1)) of
                     Inl e \<Rightarrow> Throws e
                   | Inr ls \<Rightarrow>
                       (let startDate = Date (origTimeDate t1 @ '' '' @ origTimeMin t1);
                            endDate = Date (destTimeDate t1 @ '' '' @ destTimeMin t1)
                        in CallbackResult
                             (t1\<lparr>legs := Array ls,
                                 duration :=
                                   Some (num2 (/) (num2 (-) endDate startDate) (Num 60000))\<rparr>)))
           | _ \<Rightarrow> Throws TypeError))"

text \<open>
  A host \<^verbatim>\<open>Date\<close> for the examples: it reads \<^verbatim>\<open>M/D/YYYY h:mm AM\<close> (or \<^verbatim>\<open>PM\<close>), the
  form of the schedule replies, as a time in a zone without offset; any other text is an
  invalid date.
\<close>

fun digitValue :: "char \<Rightarrow> nat option" where
  "digitValue c =
     (if CHR ''0'' \<le> c \<and> c \<le> CHR ''9'' then Some (of_char c - of_char CHR ''0'') else None)"

fun digitsValue :: "nat \<Rightarrow> string \<Rightarrow> nat option" where
  "digitsValue acc [] = Some acc"
| "digitsValue acc (c # cs) =
     (case digitValue c of None \<Rightarrow> None | Some d \<Rightarrow> digitsValue (10 * acc + d) cs)"

definition numberOf :: "string \<Rightarrow> nat option" where
  "numberOf s = (if s = [] then None else digitsValue 0 s)"

definition daysFromCivil :: "int \<Rightarrow> int \<Rightarrow> int \<Rightarrow> int" where
  "daysFromCivil y m d =
     (let y' = (if m \<le> 2 then y - 1 else y);
          era = y' div 400;
          yoe = y' - era * 400;
          doy = (153 * (if 2 < m then m - 3 else m + 9) + 2) div 5 + d - 1;
          doe = yoe * 365 + yoe div 4 - yoe div 100 + doy
      in era * 146097 + doe - 719468)"

definition exampleDate :: "string \<Rightarrow> jsnum" where
  "exampleDate s =
     (case js_split s '' '' of
        [date, time, meridiem] \<Rightarrow>
          (case (map numberOf (js_split date ''/''), map numberOf (js_split time '':'')) of
             ([Some m, Some d, Some y], [Some h, Some mi]) \<Rightarrow>
               (if 1 \<le> m \<and> m \<le> 12 \<and> 1 \<le> d \<and> d \<le> 31 \<and> 1 \<le> h \<and> h \<le> 12 \<and> mi < 60 \<and>
                   (meridiem = ''AM'' \<or> meridiem = ''PM'')
                then Num (of_int
                       (((daysFromCivil (int y) (int m) (int d) * 24 +
                          (int (h mod 12) + (if meridiem = ''PM'' then 12 else 0))) * 60 +
                         int mi) * 60000))
                else NaN)
           | _ \<Rightarrow> NaN)
      | _ \<Rightarrow> NaN)"

subsection \<open>Names used in the properties\<close>

text \<open>The station of a result, without the member \<^verbatim>\<open>distance\<close>.\<close>

fun stationOf :: "closest \<Rightarrow> station option" where
  "stationOf EmptyObject = None"
| "stationOf (StationAt s d) = Some s"

text \<open>The distance the loop computes for a station.\<close>

abbreviation stationDistance :: "host \<Rightarrow> jsnum \<Rightarrow> jsnum \<Rightarrow> station \<Rightarrow> jsnum" where
  "stationDistance h lat lng s \<equiv> getDistance h lat lng (gtfs_latitude s) (gtfs_longitude s)"

text \<open>
  A station of the list \<open>xs\<close> whose computed distance is below the starting value 999999.9
  of the loop and is not beaten by the computed distance of any station of the list.
\<close>

definition nearest :: "host \<Rightarrow> jsnum \<Rightarrow> jsnum \<Rightarrow> station list \<Rightarrow> station \<Rightarrow> bool" where
  "nearest h lat lng xs s =
     (js_less (stationDistance h lat lng s) sentinel \<and>
      (\<forall>t\<in>set xs. \<not> js_less (stationDistance h lat lng t) (stationDistance h lat lng s)))"

text \<open>
  One batch of the fan-out on its own: its state and its slot under the replies to its
  requests, in the order \<open>is\<close> in which they arrive; \<open>fetch i\<close> is what the callback of
  request \<open>i\<close> gets from \<open>stationDetail\<close>.
\<close>

fun batchRun ::
  "nat \<Rightarrow> (nat \<Rightarrow> js_error + detail option) \<Rightarrow> nat list \<Rightarrow> batch \<times> detail option list option \<Rightarrow>
   batch \<times> detail option list option" where
  "batchRun n fetch [] bs = bs"
| "batchRun n fetch (i # is) (b, slot) =
     batchRun n fetch is
       (if n \<le> i then (b, slot)
        else (case fetch i of
                Inl e \<Rightarrow> (b, slot)
              | Inr d \<Rightarrow>
                  (let b' = \<lparr>collected = collected b @ [d], completed = completed b + 1\<rparr>
                   in if completed b' = n
                      then (b', Some (sortBy_name (collected b')))
                      else (b', slot))))"

text \<open>The requests of one batch whose replies arrive, in the order of arrival.\<close>

definition arrivalsOf :: "kind \<Rightarrow> (kind \<times> nat) list \<Rightarrow> nat list" where
  "arrivalsOf k arrivals = map snd (filter (\<lambda>a. fst a = k) arrivals)"

subsection \<open>The exact host\<close>

text \<open>
  A host for the examples, whose operations are those of the reals, without rounding, on
  operands that are reals (and give \<^verbatim>\<open>NaN\<close> on an infinity). \<^verbatim>\<open>Math.sqrt\<close> is
  \<^verbatim>\<open>NaN\<close> below zero; \<^verbatim>\<open>Math.atan2(y, x)\<close> is the angle of the point \<open>(x, y)\<close>, in
  \<open>(-\<pi>, \<pi>]\<close>.
\<close>

fun exact_sqrt :: "jsnum \<Rightarrow> jsnum" where
  "exact_sqrt (Num x) = (if x < 0 then NaN else Num (sqrt x))"
| "exact_sqrt _ = NaN"

definition atan2 :: "real \<Rightarrow> real \<Rightarrow> real" where
  "atan2 y x =
     (if 0 < x then arctan (y / x)
      else if x < 0 then (if 0 \<le> y then arctan (y / x) + pi else arctan (y / x) - pi)
      else if 0 < y then pi / 2
      else if y < 0 then - (pi / 2)
      else 0)"

definition exactHost :: host where
  "exactHost =
     \<lparr>host_add = num2 (+), host_sub = num2 (-), host_mul = num2 (*), host_div = num2 (/),
      host_sin = num1 sin, host_cos = num1 cos, host_sqrt = exact_sqrt,
      host_atan2 = num2 atan2, host_PI = Num pi\<rparr>"

text \<open>The value of \<^verbatim>\<open>a\<close> in \<^verbatim>\<open>getDistance\<close> on the exact host, for four reals.\<close>

definition haversine :: "real \<Rightarrow> real \<Rightarrow> real \<Rightarrow> real \<Rightarrow> real" where
  "haversine latUser lonUser latStation lonStation =
     sin ((latStation - latUser) * (pi / 180) / 2) * sin ((latStation - latUser) * (pi / 180) / 2) +
     cos (latStation * (pi / 180)) * cos (latUser * (pi / 180)) *
       sin ((lonStation - lonUser) * (pi / 180) / 2) * sin ((lonStation - lonUser) * (pi / 180) / 2)"

subsection \<open>Example data\<close>

definition oakland12th :: station where
  "oakland12th =
     \<lparr>name = ''12th St. Oakland City Center'', abbr = ''12TH'',
      gtfs_latitude = Num (37803664 / 1000000), gtfs_longitude = Num (- (122271604 / 1000000))\<rparr>"

definition coliseum :: station where
  "coliseum =
     \<lparr>name = ''Coliseum'', abbr = ''COLS'',
      gtfs_latitude = Num (37754006 / 1000000), gtfs_longitude = Num (- (122197273 / 1000000))\<rparr>"

text \<open>Two stations on one parallel, one degree east and west of longitude -122.\<close>

definition eastStation :: station where
  "eastStation =
     \<lparr>name = ''East'', abbr = ''EAST'',
      gtfs_latitude = Num (75 / 2), gtfs_longitude = Num (- 121)\<rparr>"

definition westStation :: station where
  "westStation =
     \<lparr>name = ''West'', abbr = ''WEST'',
      gtfs_latitude = Num (75 / 2), gtfs_longitude = Num (- 123)\<rparr>"

text \<open>Two stations on the equator, half the globe apart.\<close>

definition nullIsland :: station where
  "nullIsland =
     \<lparr>name = ''Origin'', abbr = ''ORIG'', gtfs_latitude = Num 0, gtfs_longitude = Num 0\<rparr>"

definition antipode :: station where
  "antipode =
     \<lparr>name = ''Antipode'', abbr = ''ANTI'', gtfs_latitude = Num 0, gtfs_longitude = Num 180\<rparr>"

text \<open>A cache whose station list is an array of stations, and one whose list has one station.\<close>

definition cacheOf :: "station list \<Rightarrow> unit infoCache" where
  "cacheOf stations = initialCache\<lparr>stationList := Some (StationArray stations)\<rparr>"

definition cacheOfOne :: "station \<Rightarrow> unit infoCache" where
  "cacheOfOne s = initialCache\<lparr>stationList := Some (OneStation s)\<rparr>"

text \<open>
  Parsers for the examples: the document of a text is the text itself; a station list of
  one station with the text as its name; a per-station document with the text as its
  name, or no station for the reply with an empty \<^verbatim>\<open>stations\<close> element.
\<close>

definition verbatimParser :: "string option \<Rightarrow> (unit, string) parsed" where
  "verbatimParser body = (case body of None \<Rightarrow> Unreadable | Some b \<Rightarrow> Readable b)"

definition oneStationParser :: "string option \<Rightarrow> (unit, stations option) parsed" where
  "oneStationParser body =
     (case body of
        None \<Rightarrow> Unreadable
      | Some b \<Rightarrow>
          Readable (Some (OneStation
            \<lparr>name = b, abbr = ''COLS'',
             gtfs_latitude = Num (37754006 / 1000000),
             gtfs_longitude = Num (- (122197273 / 1000000))\<rparr>)))"

definition namedDetail :: "string \<Rightarrow> detail" where
  "namedDetail n = \<lparr>detail_name = n, detail_abbr = [], detail_text = n\<rparr>"

definition namedDetailParser :: "string option \<Rightarrow> (unit, detail option) parsed" where
  "namedDetailParser body =
     (case body of
        None \<Rightarrow> Unreadable
      | Some b \<Rightarrow>
          (if b = ''<root><stations></stations></root>'' then Readable None
           else Readable (Some \<lparr>detail_name = b, detail_abbr = [], detail_text = b\<rparr>)))"

text \<open>A schedule reply: one leg, leaving at 08:00 and arriving at 08:35 on one day.\<close>

definition exampleTrip :: trip where
  "exampleTrip =
     \<lparr>origTimeDate = ''11/03/2026 '', origTimeMin = ''08:00 AM'',
      destTimeDate = ''11/03/2026'', destTimeMin = ''08:35 AM'',
      duration = None,
      legs = Object \<lparr>origin = ''12TH'', destination = ''COLS'', trainHeadStation = ''COLS'',
                      originName = None, destinationName = None, trainHeadStationName = None\<rparr>\<rparr>"

definition exampleTripParser :: "string option \<Rightarrow> (unit, trip) parsed" where
  "exampleTripParser body = (case body of None \<Rightarrow> Unreadable | Some b \<Rightarrow> Readable exampleTrip)"

text \<open>
  Replies for the examples, to the requests for \<open>[oakland12th, coliseum]\<close>: the name of
  the station as the upstream service writes it; the same with the reply for the second
  station missing; and the same with an empty \<^verbatim>\<open>stations\<close> element as the reply for
  the second station.
\<close>

definition nameReply :: "nat \<Rightarrow> string option" where
  "nameReply i = Some (if i = 0 then ''12th St. Oakland City Center'' else ''Coliseum/Oakland Airport'')"

definition secondMissing :: "nat \<Rightarrow> string option" where
  "secondMissing i = (if i = 0 then Some ''12th St. Oakland City Center'' else None)"

definition secondEmpty :: "nat \<Rightarrow> string option" where
  "secondEmpty i =
     Some (if i = 0 then ''12th St. Oakland City Center'' else ''<root><stations></stations></root>'')"

section \<open>Properties\<close>

subsection \<open>The order of the numbers\<close>

lemma js_less_irrefl: "\<not> js_less a a"
  by (cases a) simp_all

lemma js_less_trans: "js_less a b \<Longrightarrow> js_less b c \<Longrightarrow> js_less a c"
  by (cases a; cases b; cases c) simp_all

lemma js_less_asym: "js_less a b \<Longrightarrow> \<not> js_less b a"
  by (cases a; cases b) simp_all

lemma js_less_not_NaN: "js_less a b \<Longrightarrow> a \<noteq> NaN \<and> b \<noteq> NaN"
  by (cases a; cases b) simp_all

lemma js_less_linear: "a \<noteq> NaN \<Longrightarrow> b \<noteq> NaN \<Longrightarrow> js_less a b \<or> a = b \<or> js_less b a"
  by (cases a; cases b) auto

subsection \<open>The great-circle distance\<close>


text \<open>The exact host on reals.\<close>

lemma exactHost_simps:
  "binary (host_add exactHost) (Num x) (Num y) = Num (x + y)"
  "binary (host_sub exactHost) (Num x) (Num y) = Num (x - y)"
  "binary (host_mul exactHost) (Num x) (Num y) = Num (x * y)"
  "binary (host_div exactHost) (Num x) (Num y) = Num (x / y)"
  "unary (host_sin exactHost) (Num x) = Num (sin x)"
  "unary (host_cos exactHost) (Num x) = Num (cos x)"
  "unary (host_sqrt exactHost) (Num x) = (if x < 0 then NaN else Num (sqrt x))"
  "binary (host_atan2 exactHost) (Num y) (Num x) = Num (atan2 y x)"
  "host_PI exactHost = Num pi"
  by (simp_all add: exactHost_def unary_def binary_def)

lemma sin_half_squared: "sin (x / 2) * sin (x / 2) = (1 - cos x) / (2::real)"
  using cos_double_sin [of "x / 2"] by (simp add: power2_eq_square)

lemma half_range:
  "- 1 \<le> (c::real) \<Longrightarrow> c \<le> 1 \<Longrightarrow>
     0 \<le> (1 - c) / 2 \<and> (1 - c) / 2 \<le> 1 \<and> 0 \<le> (1 + c) / 2 \<and> (1 + c) / 2 \<le> 1"
  by simp

lemma half_cos_range:
  "0 \<le> (1 - cos (x::real)) / 2" "(1 - cos x) / 2 \<le> 1"
  "0 \<le> (1 + cos x) / 2" "(1 + cos x) / 2 \<le> 1"
  using half_range [OF cos_ge_minus_one cos_le_one, of x] by blast+

text \<open>
  On reals \<^verbatim>\<open>a\<close> lies between 0 and 1: it is a mean, weighted by the squared sine of
  half the longitude difference, of two values that do.
\<close>

lemma haversine_range: "0 \<le> haversine a b c d \<and> haversine a b c d \<le> 1"
proof -
  define p1 where "p1 = a * (pi / 180)"
  define p2 where "p2 = c * (pi / 180)"
  define A where "A = sin ((p2 - p1) / 2) * sin ((p2 - p1) / 2)"
  define B where "B = sin ((d - b) * (pi / 180) / 2) * sin ((d - b) * (pi / 180) / 2)"
  define C where "C = cos p2 * cos p1"
  have arg: "(c - a) * (pi / 180) / 2 = (p2 - p1) / 2"
    by (simp add: p1_def p2_def left_diff_distrib)
  have h: "haversine a b c d = A + C * B"
    unfolding haversine_def arg by (simp add: A_def B_def C_def p1_def p2_def)
  have A: "A = (1 - cos (p2 - p1)) / 2"
    unfolding A_def by (rule sin_half_squared)
  have B: "B = (1 - cos ((d - b) * (pi / 180))) / 2"
    unfolding B_def by (rule sin_half_squared)
  have A0: "0 \<le> A" and A1: "A \<le> 1"
    unfolding A by (rule half_cos_range)+
  have B0: "0 \<le> B" and B1: "B \<le> 1"
    unfolding B by (rule half_cos_range)+
  have AC: "A + C = (1 + cos (p2 + p1)) / 2"
    by (simp add: A C_def cos_add cos_diff field_simps)
  have AC0: "0 \<le> A + C" and AC1: "A + C \<le> 1"
    unfolding AC by (rule half_cos_range)+
  have e: "A + C * B = (1 - B) * A + B * (A + C)"
    by (simp add: algebra_simps)
  have "0 \<le> (1 - B) * A" "0 \<le> B * (A + C)"
    using A0 B0 B1 AC0 by simp_all
  moreover have "(1 - B) * A \<le> (1 - B) * 1"
    using A1 B1 by (intro mult_left_mono) simp_all
  moreover have "B * (A + C) \<le> B * 1"
    using AC1 B0 by (intro mult_left_mono) simp_all
  ultimately show ?thesis
    unfolding h e by simp
qed

lemma atan2_quadrant: "0 \<le> y \<Longrightarrow> 0 \<le> x \<Longrightarrow> 0 \<le> atan2 y x \<and> atan2 y x \<le> pi / 2"
  using arctan_ubound [of "y / x"] arctan_lbound [of "y / x"]
  by (auto simp: atan2_def intro: less_imp_le)

lemma getDistance_Num:
  "getDistance exactHost (Num a) (Num b) (Num c) (Num d) =
     Num (6371 * (2 * atan2 (sqrt (haversine a b c d)) (sqrt (1 - haversine a b c d))) *
          (621371 / 1000000))"
proof -
  have "binary (host_add exactHost)
      (binary (host_mul exactHost)
        (unary (host_sin exactHost) (binary (host_div exactHost) (toRad exactHost (binary (host_sub exactHost) (Num c) (Num a))) (Num 2)))
        (unary (host_sin exactHost) (binary (host_div exactHost) (toRad exactHost (binary (host_sub exactHost) (Num c) (Num a))) (Num 2))))
      (binary (host_mul exactHost)
        (binary (host_mul exactHost)
          (binary (host_mul exactHost)
            (unary (host_cos exactHost) (toRad exactHost (Num c)))
            (unary (host_cos exactHost) (toRad exactHost (Num a))))
          (unary (host_sin exactHost) (binary (host_div exactHost) (toRad exactHost (binary (host_sub exactHost) (Num d) (Num b))) (Num 2))))
        (unary (host_sin exactHost) (binary (host_div exactHost) (toRad exactHost (binary (host_sub exactHost) (Num d) (Num b))) (Num 2))))
      = Num (haversine a b c d)"
    by (simp add: toRad_def exactHost_simps haversine_def)
  then show ?thesis
    using haversine_range [of a b c d]
    by (simp add: getDistance_def Let_def exactHost_simps)
qed

text \<open>
  On the exact host the distance between reals is a real, at least 0 and at most half the
  circumference of the sphere in miles, which is below the loop's starting value 999999.9.
\<close>

lemma getDistance_bounded:
  "\<exists>m. getDistance exactHost (Num a) (Num b) (Num c) (Num d) = Num m \<and> 0 \<le> m \<and> m < 9999999 / 10"
proof -
  define h where "h = haversine a b c d"
  define t where "t = atan2 (sqrt h) (sqrt (1 - h))"
  have "0 \<le> h" "h \<le> 1"
    using haversine_range [of a b c d] by (simp_all add: h_def)
  then have t: "0 \<le> t" "t \<le> pi / 2"
    using atan2_quadrant [of "sqrt h" "sqrt (1 - h)"] by (simp_all add: t_def)
  have "t < 2"
    using t(2) pi_less_4 by linarith
  then have "6371 * (2 * t) * (621371 / 1000000) < 9999999 / 10"
    by simp
  moreover have "0 \<le> 6371 * (2 * t) * (621371 / 1000000)"
    using t(1) by simp
  ultimately show ?thesis
    unfolding getDistance_Num h_def [symmetric] t_def [symmetric] by blast
qed

lemma getDistance_same_point: "getDistance exactHost (Num a) (Num b) (Num a) (Num b) = Num 0"
  by (simp add: getDistance_Num haversine_def atan2_def)

lemma getDistance_antipode:
  "getDistance exactHost (Num 0) (Num 0) (Num 0) (Num 180) = Num (6371 * pi * (621371 / 1000000))"
  by (simp add: getDistance_Num haversine_def atan2_def)

lemma east_west_tie:
  "stationDistance exactHost (Num (75 / 2)) (Num (- 122)) westStation =
   stationDistance exactHost (Num (75 / 2)) (Num (- 122)) eastStation"
  by (simp add: getDistance_Num haversine_def eastStation_def westStation_def)

subsection \<open>The loop of stationByLocation\<close>

text \<open>Among finitely many values, some of them below \<open>c\<close>, one below \<open>c\<close> is beaten by none.\<close>

lemma exists_least_below:
  "\<exists>t\<in>set xs. js_less (f t) c \<Longrightarrow>
     \<exists>s\<in>set xs. js_less (f s) c \<and> (\<forall>u\<in>set xs. \<not> js_less (f u) (f s))"
proof (induction xs)
  case Nil
  then show ?case by simp
next
  case (Cons x xs)
  show ?case
  proof (cases "\<exists>t\<in>set xs. js_less (f t) c")
    case True
    from Cons.IH [OF True] obtain s
      where s: "s \<in> set xs" "js_less (f s) c" "\<forall>u\<in>set xs. \<not> js_less (f u) (f s)"
      by blast
    show ?thesis
    proof (cases "js_less (f x) (f s)")
      case True
      then have "js_less (f x) c"
        using s(2) js_less_trans by blast
      moreover have "\<forall>u\<in>set (x # xs). \<not> js_less (f u) (f x)"
        using True s(3) js_less_trans js_less_irrefl by auto
      ultimately show ?thesis
        by auto
    next
      case False
      with s show ?thesis
        by auto
    qed
  next
    case False
    with Cons.prems have x: "js_less (f x) c"
      by auto
    moreover have "\<forall>u\<in>set (x # xs). \<not> js_less (f u) (f x)"
      using False x js_less_trans js_less_irrefl by auto
    ultimately show ?thesis
      by auto
  qed
qed

lemma find_skip: "\<not> P x \<Longrightarrow> find P (x # xs) = find P xs"
  by simp

lemma find_hit: "P x \<Longrightarrow> find P (x # xs) = Some x"
  by simp

text \<open>
  The loop ends on the first station of the list among those whose distance is below the
  starting distance and is beaten by no station of the list, and keeps the distance of
  that station; when there is none, the state is unchanged.
\<close>

lemma closestLoop_first_least:
  "cd \<noteq> NaN \<Longrightarrow>
   (case find (\<lambda>s. js_less (stationDistance h lat lng s) cd \<and>
                (\<forall>t\<in>set xs. \<not> js_less (stationDistance h lat lng t) (stationDistance h lat lng s))) xs of
      None \<Rightarrow> closestLoop h lat lng xs (cs, cd) = (cs, cd)
    | Some s \<Rightarrow> \<exists>p. closestLoop h lat lng xs (cs, cd) = (StationAt s p, stationDistance h lat lng s))"
proof (induction xs arbitrary: cs cd)
  case Nil
  then show ?case by simp
next
  case (Cons x xs)
  let ?D = "stationDistance h lat lng"
  let ?P = "\<lambda>c ys s. js_less (?D s) c \<and> (\<forall>t\<in>set ys. \<not> js_less (?D t) (?D s))"
  show ?case
  proof (cases "js_less (?D x) cd")
    case True
    then have nan: "?D x \<noteq> NaN"
      using js_less_not_NaN by blast
    have run: "closestLoop h lat lng (x # xs) (cs, cd) =
        closestLoop h lat lng xs (StationAt x cd, ?D x)"
      using True by (simp add: Let_def)
    note IH = Cons.IH [OF nan, of "StationAt x cd"]
    show ?thesis
    proof (cases "find (?P (?D x) xs) xs")
      case None
      have "\<not> (\<exists>t\<in>set xs. js_less (?D t) (?D x))"
      proof
        assume "\<exists>t\<in>set xs. js_less (?D t) (?D x)"
        from exists_least_below [OF this] obtain s where "s \<in> set xs" "?P (?D x) xs s"
          by blast
        with None show False
          by (auto simp: find_None_iff)
      qed
      then have "?P cd (x # xs) x"
        using True js_less_irrefl by auto
      then have "find (?P cd (x # xs)) (x # xs) = Some x"
        by (rule find_hit [where P = "?P cd (x # xs)"])
      moreover have "closestLoop h lat lng (x # xs) (cs, cd) = (StationAt x cd, ?D x)"
        using IH None run by simp
      ultimately show ?thesis
        by simp
    next
      case (Some s)
      then have s: "s \<in> set xs" "js_less (?D s) (?D x)" "\<forall>t\<in>set xs. \<not> js_less (?D t) (?D s)"
        by (auto simp: find_Some_iff in_set_conv_nth)
      have notx: "\<not> ?P cd (x # xs) x"
        using s by auto
      have same: "?P cd (x # xs) u = ?P (?D x) xs u" if "u \<in> set xs" for u
      proof
        assume u: "?P cd (x # xs) u"
        then have "?D u \<noteq> NaN"
          using js_less_not_NaN by blast
        with nan have "js_less (?D u) (?D x) \<or> ?D u = ?D x \<or> js_less (?D x) (?D u)"
          using js_less_linear by blast
        moreover have "\<not> js_less (?D x) (?D u)"
          using u by simp
        moreover have "?D u \<noteq> ?D x"
          using u s by auto
        ultimately show "?P (?D x) xs u"
          using u by auto
      next
        assume u: "?P (?D x) xs u"
        then have "js_less (?D u) cd"
          using True js_less_trans by blast
        moreover have "\<not> js_less (?D x) (?D u)"
          using u js_less_asym by blast
        ultimately show "?P cd (x # xs) u"
          using u by auto
      qed
      have "find (?P cd (x # xs)) (x # xs) = find (?P cd (x # xs)) xs"
        using notx by (rule find_skip [where P = "?P cd (x # xs)"])
      also have "\<dots> = find (?P (?D x) xs) xs"
        using same by (intro find_cong) auto
      finally have "find (?P cd (x # xs)) (x # xs) = Some s"
        using Some by simp
      moreover have "\<exists>p. closestLoop h lat lng (x # xs) (cs, cd) = (StationAt s p, ?D s)"
        using IH Some run by simp
      ultimately show ?thesis
        by simp
    qed
  next
    case False
    have run: "closestLoop h lat lng (x # xs) (cs, cd) = closestLoop h lat lng xs (cs, cd)"
      using False by (simp add: Let_def)
    have notx: "\<not> ?P cd (x # xs) x"
      using False by simp
    have same: "?P cd (x # xs) u = ?P cd xs u" if "u \<in> set xs" for u
      using False js_less_trans by auto
    have "find (?P cd (x # xs)) (x # xs) = find (?P cd (x # xs)) xs"
      using notx by (rule find_skip [where P = "?P cd (x # xs)"])
    also have "\<dots> = find (?P cd xs) xs"
      using same by (intro find_cong) auto
    finally have f: "find (?P cd (x # xs)) (x # xs) = find (?P cd xs) xs" .
    show ?thesis
      unfolding f run by (rule Cons.IH [OF Cons.prems])
  qed
qed

text \<open>
  On a station list whose loop visits the stations \<open>xs\<close> the query calls back with the end
  of the loop: the first station of \<open>xs\<close> among the nearest ones, or the empty object when
  no distance is below 999999.9.
\<close>

lemma stationByLocation_visited:
  assumes "stationList cache = Some v" and "visited v = Inr xs"
  shows "\<exists>r. stationByLocation h lat lng cache = (CallbackResult r :: ('x, closest) outcome) \<and>
      stationOf r = find (nearest h lat lng xs) xs \<and>
      (find (nearest h lat lng xs) xs = None \<longrightarrow> r = EmptyObject)"
proof -
  have n: "nearest h lat lng xs =
      (\<lambda>s. js_less (stationDistance h lat lng s) (Num (9999999 / 10)) \<and>
           (\<forall>t\<in>set xs. \<not> js_less (stationDistance h lat lng t) (stationDistance h lat lng s)))"
    by (simp add: nearest_def sentinel_def fun_eq_iff)
  have r: "stationByLocation h lat lng cache =
      (CallbackResult (fst (closestLoop h lat lng xs (EmptyObject, Num (9999999 / 10)))) :: ('x, closest) outcome)"
    using assms by (simp add: stationByLocation_def sentinel_def)
  from closestLoop_first_least [of "Num (9999999 / 10)" h lat lng xs EmptyObject]
  show ?thesis
    unfolding r n by (auto split: option.splits)
qed

subsection \<open>Nearest station: the reported distance\<close>

text \<open>
  On every host, the first station of an array whose distance is below 999999.9 is
  recorded with the member \<^verbatim>\<open>distance\<close> at 999999.9: in an array of one station the
  result carries that value, whatever the distance of the station is.
\<close>

lemma stationByLocation_single_reports_start:
  "stationList cache = Some (StationArray [s]) \<Longrightarrow>
     js_less (stationDistance h lat lng s) sentinel \<Longrightarrow>
     stationByLocation h lat lng cache = CallbackResult (StationAt s sentinel)"
  by (simp add: stationByLocation_def Let_def)

text \<open>
  Claim C1. The nearest-station query computes the haversine distance (radius 6371 km,
  factor 0.621371 to miles) to every cached station and returns the station of least
  distance paired with that least distance. The loop assigns the member
  \<^verbatim>\<open>distance\<close> before it updates \<^verbatim>\<open>closestDistance\<close>, so the member holds the best
  distance of the iterations before. With one cached station and the query at that
  station, the distance is 0 (every operation on the way is exact) and the result carries
  the starting value 999999.9.
\<close>

theorem stationByLocation_reports_previous_distance:
  "stationDistance exactHost (Num (37803664 / 1000000)) (Num (- (122271604 / 1000000))) oakland12th =
     Num 0 \<and>
   stationByLocation exactHost (Num (37803664 / 1000000)) (Num (- (122271604 / 1000000)))
       (cacheOf [oakland12th]) =
     (CallbackResult (StationAt oakland12th (Num (9999999 / 10))) :: (unit, closest) outcome)"
  by (simp add: stationByLocation_def cacheOf_def oakland12th_def sentinel_def
      getDistance_same_point Let_def)

subsection \<open>Queries before the first refresh\<close>

text \<open>
  Claim C2, as stated: a cached-data query before the first refresh calls back with a
  NotReadyError and never faults. On the cache as the module creates it,
  \<^verbatim>\<open>getStations\<close> reads the member \<^verbatim>\<open>station\<close> of \<^verbatim>\<open>undefined\<close>: it throws a
  \<^verbatim>\<open>TypeError\<close> and calls nothing back.
\<close>

theorem getStations_initial_cache_throws:
  "getStations (initialCache :: unit infoCache) = (Throws TypeError :: (unit, stations) outcome)"
  by (simp add: getStations_def initialCache_def)

text \<open>
  Claim C2, amended: while the station list slot is \<^verbatim>\<open>undefined\<close>, \<^verbatim>\<open>getStations\<close> and
  \<^verbatim>\<open>stationByLocation\<close> throw a \<^verbatim>\<open>TypeError\<close> and do not call back, whatever the other
  slots and the query point are.
\<close>

theorem cached_queries_before_refresh_throw:
  "getStations (cache\<lparr>stationList := None\<rparr>) = Throws TypeError \<and>
   stationByLocation h lat lng (cache\<lparr>stationList := None\<rparr>) = Throws TypeError"
  by (simp add: getStations_def stationByLocation_def)

subsection \<open>Station name lookup\<close>

lemma findName_find: "findName xs a = map_option name (find (\<lambda>s. abbr s = a) xs)"
  by (induction xs) simp_all

lemma findName_None: "(findName xs a = None) = (\<forall>s\<in>set xs. abbr s \<noteq> a)"
  by (induction xs) simp_all

lemma findName_Some: "findName xs a = Some n \<Longrightarrow> \<exists>s\<in>set xs. abbr s = a \<and> name s = n"
  by (induction xs) (auto split: if_splits)

text \<open>
  On a snapshot that is an array of stations \<^verbatim>\<open>getStationName\<close> searches the array from
  the front: it returns the name of the first station whose abbreviation equals the
  argument, and \<^verbatim>\<open>undefined\<close> exactly when no station of the array has the abbreviation.
\<close>

lemma getStationName_array:
  assumes "stationList cache = Some (StationArray xs)"
  shows "getStationName cache a = Inr (map_option name (find (\<lambda>s. abbr s = a) xs)) \<and>
    (\<forall>n. getStationName cache a = Inr (Some n) \<longrightarrow> (\<exists>s\<in>set xs. abbr s = a \<and> name s = n)) \<and>
    ((getStationName cache a = Inr None) = (\<forall>s\<in>set xs. abbr s \<noteq> a))"
  using assms findName_Some [of xs a]
  by (simp add: getStationName_def findName_find [symmetric] findName_None)

text \<open>
  Claim C9. \<^verbatim>\<open>getStationName\<close> searches the station list snapshot and returns the name of
  a station whose abbreviation equals the argument, or \<^verbatim>\<open>undefined\<close> when no station of
  the snapshot has it. On a snapshot of one station the member \<^verbatim>\<open>station\<close> is that station
  and not an array, its \<^verbatim>\<open>length\<close> is \<^verbatim>\<open>undefined\<close>, the loop does not run, and the
  function returns \<^verbatim>\<open>undefined\<close> for the abbreviation of the very station the snapshot
  holds.
\<close>

theorem getStationName_one_station_undefined:
  "stationList (cacheOfOne coliseum) = Some (OneStation coliseum) \<and>
   abbr coliseum = ''COLS'' \<and>
   getStationName (cacheOfOne coliseum) ''COLS'' = Inr None"
  by (simp add: getStationName_def cacheOfOne_def coliseum_def)

subsection \<open>Nearest station: the empty result\<close>




subsection \<open>Nearest station: the order of the list\<close>

text \<open>
  Claim C8, as stated: for two orders of one station set the query returns the same
  station. The comparison is strict, so of two stations at one distance the earlier in the
  list wins: with a station one degree east and one a degree west of the query point, each
  order of the list returns its first station.
\<close>

theorem stationByLocation_tie_follows_list_order:
  "mset [eastStation, westStation] = mset [westStation, eastStation] \<and>
   stationByLocation exactHost (Num (75 / 2)) (Num (- 122)) (cacheOf [eastStation, westStation]) =
     (CallbackResult (StationAt eastStation (Num (9999999 / 10))) :: (unit, closest) outcome) \<and>
   stationByLocation exactHost (Num (75 / 2)) (Num (- 122)) (cacheOf [westStation, eastStation]) =
     (CallbackResult (StationAt westStation (Num (9999999 / 10))) :: (unit, closest) outcome) \<and>
   eastStation \<noteq> westStation"
proof -
  obtain m where e: "stationDistance exactHost (Num (75 / 2)) (Num (- 122)) eastStation = Num m"
    and m: "m < 9999999 / 10"
    using getDistance_bounded [of "75 / 2" "- 122" "75 / 2" "- 121"]
    by (auto simp: eastStation_def)
  have w: "stationDistance exactHost (Num (75 / 2)) (Num (- 122)) westStation = Num m"
    using east_west_tie e by simp
  have "eastStation \<noteq> westStation"
    by (simp add: eastStation_def westStation_def)
  then show ?thesis
    using m by (simp add: stationByLocation_def cacheOf_def sentinel_def Let_def e w)
qed

text \<open>
  Claim C8, amended. On every host and for every query point, the station returned from
  an array of stations is the first in the order of the array among its nearest stations
  (those whose computed distance is below 999999.9 and beaten by no computed distance of
  the array), and none when there is no such station. So two orders of one array return
  the same station whenever at most one station is nearest; the member \<^verbatim>\<open>distance\<close>
  is left aside.
\<close>

theorem stationByLocation_first_of_nearest:
  assumes c1: "stationList c1 = Some (StationArray xs)"
    and c2: "stationList c2 = Some (StationArray ys)"
    and perm: "mset xs = mset ys"
  shows "\<exists>r1 r2. stationByLocation h lat lng c1 = (CallbackResult r1 :: ('x, closest) outcome) \<and>
      stationByLocation h lat lng c2 = (CallbackResult r2 :: ('x, closest) outcome) \<and>
      stationOf r1 = find (nearest h lat lng xs) xs \<and>
      stationOf r2 = find (nearest h lat lng ys) ys \<and>
      ((\<forall>s\<in>set xs. \<forall>t\<in>set xs. nearest h lat lng xs s \<and> nearest h lat lng xs t \<longrightarrow> s = t) \<longrightarrow>
         stationOf r1 = stationOf r2)"
proof -
  have sets: "set ys = set xs"
    using perm by (metis set_mset_mset)
  then have same: "nearest h lat lng ys = nearest h lat lng xs"
    by (simp add: nearest_def fun_eq_iff)
  obtain r1 where r1: "stationByLocation h lat lng c1 = (CallbackResult r1 :: ('x, closest) outcome)"
      "stationOf r1 = find (nearest h lat lng xs) xs"
    using stationByLocation_visited [OF c1 visited.simps(3)] by blast
  obtain r2 where r2: "stationByLocation h lat lng c2 = (CallbackResult r2 :: ('x, closest) outcome)"
      "stationOf r2 = find (nearest h lat lng ys) ys"
    using stationByLocation_visited [OF c2 visited.simps(3)] by blast
  have eq: "find (nearest h lat lng xs) xs = find (nearest h lat lng xs) ys"
    if one: "\<forall>s\<in>set xs. \<forall>t\<in>set xs. nearest h lat lng xs s \<and> nearest h lat lng xs t \<longrightarrow> s = t"
  proof (cases "find (nearest h lat lng xs) xs")
    case None
    then have "\<forall>s\<in>set ys. \<not> nearest h lat lng xs s"
      by (simp add: find_None_iff sets)
    then have "find (nearest h lat lng xs) ys = None"
      by (simp add: find_None_iff)
    with None show ?thesis
      by simp
  next
    case (Some s)
    then have s: "s \<in> set xs" "nearest h lat lng xs s"
      by (auto simp: find_Some_iff)
    then obtain t where t: "find (nearest h lat lng xs) ys = Some t"
      using sets by (cases "find (nearest h lat lng xs) ys") (auto simp: find_None_iff)
    then have "t \<in> set xs" "nearest h lat lng xs t"
      using sets by (auto simp: find_Some_iff)
    with one s have "s = t"
      by blast
    with Some t show ?thesis
      by simp
  qed
  show ?thesis
  proof (intro exI conjI impI)
    show "stationByLocation h lat lng c1 = (CallbackResult r1 :: ('x, closest) outcome)"
      by (rule r1(1))
    show "stationByLocation h lat lng c2 = (CallbackResult r2 :: ('x, closest) outcome)"
      by (rule r2(1))
    show "stationOf r1 = find (nearest h lat lng xs) xs"
      by (rule r1(2))
    show "stationOf r2 = find (nearest h lat lng ys) ys"
      by (rule r2(2))
    show "stationOf r1 = stationOf r2"
      if "\<forall>s\<in>set xs. \<forall>t\<in>set xs. nearest h lat lng xs s \<and> nearest h lat lng xs t \<longrightarrow> s = t"
      using eq [OF that] r1(2) r2(2) same by simp
  qed
qed

text \<open>
  Claim C8, amended, on the exact host, two stations half the globe apart and the query at
  the first: both orders return the first, with different values of the member
  \<^verbatim>\<open>distance\<close>.
\<close>

theorem stationByLocation_first_of_nearest_witness:
  "mset [nullIsland, antipode] = mset [antipode, nullIsland] \<and>
   find (nearest exactHost (Num 0) (Num 0) [nullIsland, antipode]) [nullIsland, antipode] =
     Some nullIsland \<and>
   find (nearest exactHost (Num 0) (Num 0) [antipode, nullIsland]) [antipode, nullIsland] =
     Some nullIsland \<and>
   stationByLocation exactHost (Num 0) (Num 0) (cacheOf [nullIsland, antipode]) =
     (CallbackResult (StationAt nullIsland (Num (9999999 / 10))) :: (unit, closest) outcome) \<and>
   stationByLocation exactHost (Num 0) (Num 0) (cacheOf [antipode, nullIsland]) =
     (CallbackResult (StationAt nullIsland (Num (6371 * pi * (621371 / 1000000))))
        :: (unit, closest) outcome)"
proof -
  have perm: "mset [nullIsland, antipode] = mset [antipode, nullIsland]"
    by simp
  have d0: "stationDistance exactHost (Num 0) (Num 0) nullIsland = Num 0"
    by (simp add: nullIsland_def getDistance_same_point)
  have d1: "stationDistance exactHost (Num 0) (Num 0) antipode = Num (6371 * pi * (621371 / 1000000))"
    by (simp add: antipode_def getDistance_antipode)
  have ne: "antipode \<noteq> nullIsland"
    by (simp add: antipode_def nullIsland_def)
  have c1: "stationList (cacheOf [nullIsland, antipode]) = Some (StationArray [nullIsland, antipode])"
    and c2: "stationList (cacheOf [antipode, nullIsland]) = Some (StationArray [antipode, nullIsland])"
    by (simp_all add: cacheOf_def)
  have bound: "6371 * pi * (621371 / 1000000) < 9999999 / (10::real)"
    using pi_less_4 by simp
  have f1: "find (nearest exactHost (Num 0) (Num 0) [nullIsland, antipode]) [nullIsland, antipode] =
      Some nullIsland"
    by (simp add: nearest_def sentinel_def d0 d1)
  have f2: "find (nearest exactHost (Num 0) (Num 0) [antipode, nullIsland]) [antipode, nullIsland] =
      Some nullIsland"
    using ne by (simp add: nearest_def sentinel_def d0 d1)
  show ?thesis
    using stationByLocation_first_of_nearest [OF c1 c2 perm, of exactHost "Num 0" "Num 0"] bound f1 f2
    by (simp add: stationByLocation_def cacheOf_def sentinel_def Let_def d0 d1)
qed

subsection \<open>Strings: the first occurrence and all occurrences\<close>

lemma replace_at_first:
  "js_indexOf s pat = int i \<Longrightarrow> js_replace s pat rep = take i s @ rep @ drop (i + length pat) s"
proof (induction s arbitrary: i)
  case Nil
  then show ?case by (simp split: if_splits)
next
  case (Cons c cs)
  show ?case
  proof (cases "prefix pat (c # cs)")
    case True
    with Cons.prems show ?thesis by simp
  next
    case False
    with Cons.prems have r: "0 \<le> js_indexOf cs pat" "js_indexOf cs pat + 1 = int i"
      by (simp_all add: Let_def split: if_splits)
    then obtain j where j: "i = Suc j" "js_indexOf cs pat = int j"
      by (cases i) simp_all
    from Cons.IH [OF j(2)] False j show ?thesis by simp
  qed
qed

lemma splitFrom_absent: "js_indexOf s pat < 0 \<Longrightarrow> splitFrom pat cur s = [cur @ s]"
proof (induction s arbitrary: cur)
  case Nil
  then show ?case by (simp split: if_splits)
next
  case (Cons c cs)
  then have "\<not> prefix pat (c # cs)" "js_indexOf cs pat < 0"
    by (simp_all add: Let_def split: if_splits)
  with Cons.IH [of "cur @ [c]"] show ?case by simp
qed

lemma splitFrom_at_first:
  "pat \<noteq> [] \<Longrightarrow> js_indexOf s pat = int i \<Longrightarrow>
     splitFrom pat cur s = (cur @ take i s) # splitFrom pat [] (drop (i + length pat) s)"
proof (induction s arbitrary: i cur)
  case Nil
  then show ?case by (simp split: if_splits)
next
  case (Cons c cs)
  show ?case
  proof (cases "prefix pat (c # cs)")
    case True
    with Cons.prems show ?thesis by simp
  next
    case False
    with Cons.prems have r: "0 \<le> js_indexOf cs pat" "js_indexOf cs pat + 1 = int i"
      by (simp_all add: Let_def split: if_splits)
    then obtain j where j: "i = Suc j" "js_indexOf cs pat = int j"
      by (cases i) simp_all
    from Cons.IH [OF Cons.prems(1) j(2), of "cur @ [c]"] False j show ?thesis by simp
  qed
qed

lemma splitFrom_not_Nil: "splitFrom pat cur s \<noteq> []"
  by (induction pat cur s rule: splitFrom.induct) simp_all

lemma join_Cons: "xs \<noteq> [] \<Longrightarrow> js_join (x # xs) sep = x @ sep @ js_join xs sep"
  by (cases xs) simp_all

text \<open>Split and join leave a text without the pattern as it is, and replace from the left.\<close>

lemma split_join_absent:
  "pat \<noteq> [] \<Longrightarrow> js_indexOf s pat < 0 \<Longrightarrow> js_join (js_split s pat) rep = s"
  by (simp add: js_split_def splitFrom_absent)

lemma split_join_at_first:
  "pat \<noteq> [] \<Longrightarrow> js_indexOf s pat = int i \<Longrightarrow>
     js_join (js_split s pat) rep =
       take i s @ rep @ js_join (js_split (drop (i + length pat) s) pat) rep"
  by (simp add: js_split_def splitFrom_at_first [where cur = "[]"] join_Cons splitFrom_not_Nil)

subsection \<open>The correction of the station name\<close>

text \<open>
  Claim C5, as stated: a payload with the name \<^verbatim>\<open>Coliseum/Oakland Airport\<close> has it
  replaced by \<^verbatim>\<open>Coliseum\<close> in every slot, the elevator status among them.
  \<^verbatim>\<open>loadElevatorStatus\<close> replaces nothing: the text reaches the parser as it came,
  and the document stored is the document of that text.
\<close>

theorem loadElevatorStatus_keeps_raw_name:
  "loadElevatorStatus verbatimParser (Some ''Coliseum/Oakland Airport: elevator out of service'')
       (initialCache :: string infoCache) =
     Inr (initialCache\<lparr>elevatorStatus := Some ''Coliseum/Oakland Airport: elevator out of service''\<rparr>)"
  by (simp add: loadElevatorStatus_def verbatimParser_def)

text \<open>
  Claim C5, amended. For a payload whose first occurrence of
  \<^verbatim>\<open>Coliseum/Oakland Airport\<close> is at position \<open>i\<close>: the station list is parsed from
  the payload with that occurrence replaced by \<^verbatim>\<open>Coliseum\<close> (a throw of the fan-out
  that follows leaves the parsed list in the slot); a station info or access
  document is parsed from the payload with the occurrences replaced one after the other
  from the left when the URL of its request contains \<^verbatim>\<open>COLS\<close>, and from the payload as
  it came when the URL does not; the elevator status is parsed from the payload as it
  came.
\<close>

theorem name_correction_per_slot:
  assumes first: "js_indexOf b ''Coliseum/Oakland Airport'' = int i"
  shows "loadStationList xmlParser accessParser infoParser (Some b) accessReply infoReply arrivals c =
      (case xmlParser (Some (take i b @ ''Coliseum'' @ drop (i + 24) b)) of
         Readable stations \<Rightarrow>
           (case getStationInfoAndAccess accessParser infoParser accessReply infoReply arrivals
                   (c\<lparr>stationList := stations\<rparr>) of
              Inl e \<Rightarrow> Inl (e, c\<lparr>stationList := stations\<rparr>)
            | Inr st \<Rightarrow> Inr st)
       | _ \<Rightarrow> Inl (TypeError, c)) \<and>
    (- 1 < js_indexOf url ''COLS'' \<longrightarrow>
       stationDetail accessParser url (Some b) =
         (case accessParser
                 (Some (take i b @ ''Coliseum'' @
                    js_join (js_split (drop (i + 24) b) ''Coliseum/Oakland Airport'') ''Coliseum'')) of
            Readable d \<Rightarrow> Inr d
          | _ \<Rightarrow> Inl TypeError)) \<and>
    (js_indexOf url ''COLS'' = - 1 \<longrightarrow>
       stationDetail accessParser url (Some b) =
         (case accessParser (Some b) of Readable d \<Rightarrow> Inr d | _ \<Rightarrow> Inl TypeError)) \<and>
    loadElevatorStatus elevatorParser (Some b) e =
      (case elevatorParser (Some b) of
         Readable doc \<Rightarrow> Inr (e\<lparr>elevatorStatus := Some doc\<rparr>)
       | _ \<Rightarrow> Inl TypeError)"
proof -
  have len: "length ''Coliseum/Oakland Airport'' = 24"
    by simp
  have r: "js_replace b ''Coliseum/Oakland Airport'' ''Coliseum'' =
      take i b @ ''Coliseum'' @ drop (i + 24) b"
    by (rule replace_at_first [OF first, of "''Coliseum''", unfolded len])
  have a: "js_join (js_split b ''Coliseum/Oakland Airport'') ''Coliseum'' =
      take i b @ ''Coliseum'' @
        js_join (js_split (drop (i + 24) b) ''Coliseum/Oakland Airport'') ''Coliseum''"
    by (rule split_join_at_first [OF _ first, of "''Coliseum''", unfolded len]) simp
  have 1: "loadStationList xmlParser accessParser infoParser (Some b) accessReply infoReply arrivals c =
      (case xmlParser (Some (take i b @ ''Coliseum'' @ drop (i + 24) b)) of
         Readable stations \<Rightarrow>
           (case getStationInfoAndAccess accessParser infoParser accessReply infoReply arrivals
                   (c\<lparr>stationList := stations\<rparr>) of
              Inl e \<Rightarrow> Inl (e, c\<lparr>stationList := stations\<rparr>)
            | Inr st \<Rightarrow> Inr st)
       | _ \<Rightarrow> Inl (TypeError, c))"
    by (simp add: loadStationList_def r)
  have 2: "- 1 < js_indexOf url ''COLS'' \<longrightarrow>
       stationDetail accessParser url (Some b) =
         (case accessParser
                 (Some (take i b @ ''Coliseum'' @
                    js_join (js_split (drop (i + 24) b) ''Coliseum/Oakland Airport'') ''Coliseum'')) of
            Readable d \<Rightarrow> Inr d
          | _ \<Rightarrow> Inl TypeError)"
    by (simp add: stationDetail_def a)
  have 3: "js_indexOf url ''COLS'' = - 1 \<longrightarrow>
       stationDetail accessParser url (Some b) =
         (case accessParser (Some b) of Readable d \<Rightarrow> Inr d | _ \<Rightarrow> Inl TypeError)"
    by (simp add: stationDetail_def)
  have 4: "loadElevatorStatus elevatorParser (Some b) e =
      (case elevatorParser (Some b) of
         Readable doc \<Rightarrow> Inr (e\<lparr>elevatorStatus := Some doc\<rparr>)
       | _ \<Rightarrow> Inl TypeError)"
    by (simp add: loadElevatorStatus_def)
  from 1 2 3 4 show ?thesis by blast
qed


text \<open>
  Claim C5, amended, on the payload \<^verbatim>\<open><name>Coliseum/Oakland Airport</name>\<close> and the
  requests for the stations COLS and 12TH.
\<close>

theorem name_correction_per_slot_witness:
  "js_indexOf ''<name>Coliseum/Oakland Airport</name>'' ''Coliseum/Oakland Airport'' = int 6 \<and>
   - 1 < js_indexOf (stationAccessURL coliseum) ''COLS'' \<and>
   js_indexOf (stationAccessURL oakland12th) ''COLS'' = - 1 \<and>
   map_sum id (stationList \<circ> infoCache)
     (loadStationList oneStationParser namedDetailParser namedDetailParser
        (Some ''<name>Coliseum/Oakland Airport</name>'') (\<lambda>i. None) (\<lambda>i. None) []
        (initialCache :: string infoCache)) =
     Inr (Some (OneStation \<lparr>name = ''<name>Coliseum</name>'', abbr = ''COLS'',
                 gtfs_latitude = Num (37754006 / 1000000),
                 gtfs_longitude = Num (- (122197273 / 1000000))\<rparr>)) \<and>
   stationDetail namedDetailParser (stationAccessURL coliseum)
       (Some ''<name>Coliseum/Oakland Airport</name>'') =
     Inr (Some \<lparr>detail_name = ''<name>Coliseum</name>'', detail_abbr = [],
          detail_text = ''<name>Coliseum</name>''\<rparr>) \<and>
   stationDetail namedDetailParser (stationAccessURL oakland12th)
       (Some ''<name>Coliseum/Oakland Airport</name>'') =
     Inr (Some \<lparr>detail_name = ''<name>Coliseum/Oakland Airport</name>'', detail_abbr = [],
          detail_text = ''<name>Coliseum/Oakland Airport</name>''\<rparr>) \<and>
   loadElevatorStatus verbatimParser (Some ''<name>Coliseum/Oakland Airport</name>'')
       (initialCache :: string infoCache) =
     Inr (initialCache\<lparr>elevatorStatus := Some ''<name>Coliseum/Oakland Airport</name>''\<rparr>)"
proof -
  have first: "js_indexOf ''<name>Coliseum/Oakland Airport</name>'' ''Coliseum/Oakland Airport'' = int 6"
    by simp
  have cols: "- 1 < js_indexOf (stationAccessURL coliseum) ''COLS''"
    by (simp add: stationAccessURL_def coliseum_def)
  have other: "js_indexOf (stationAccessURL oakland12th) ''COLS'' = - 1"
    by (simp add: stationAccessURL_def oakland12th_def)
  note t1 = name_correction_per_slot [OF first, of oneStationParser namedDetailParser namedDetailParser
      "\<lambda>i. None" "\<lambda>i. None" "[]" "initialCache :: string infoCache"
      "stationAccessURL coliseum" verbatimParser "initialCache :: string infoCache"]
  note t2 = name_correction_per_slot [OF first, of oneStationParser namedDetailParser namedDetailParser
      "\<lambda>i. None" "\<lambda>i. None" "[]" "initialCache :: string infoCache"
      "stationAccessURL oakland12th" verbatimParser "initialCache :: string infoCache"]
  show ?thesis
    using t1 t2 first cols other
    by (simp add: oneStationParser_def namedDetailParser_def verbatimParser_def
        getStationInfoAndAccess_def initialCache_def js_split_def)
qed

subsection \<open>A single service announcement\<close>

text \<open>
  Claim C6. When the member \<^verbatim>\<open>bsa\<close> of the parsed reply is a single object and not an
  array, \<^verbatim>\<open>getServiceAnnouncements\<close> calls back with a \<^verbatim>\<open>null\<close> error and the
  document in which \<^verbatim>\<open>bsa\<close> is the array of that one object.
\<close>

theorem getServiceAnnouncements_single_to_list:
  assumes "xmlParser body = Readable doc" and "bsa doc = Object x"
  shows "getServiceAnnouncements xmlParser body = CallbackResult (doc\<lparr>bsa := Array [Object x]\<rparr>)"
  using assms by (simp add: getServiceAnnouncements_def)

text \<open>Claim C6 on a reply with one announcement.\<close>

theorem getServiceAnnouncements_single_to_list_witness:
  "getServiceAnnouncements (\<lambda>body. Readable \<lparr>bsa = Object ''No delays reported.''\<rparr> :: (unit, string announcements) parsed)
      (Some ''<root><bsa><description>No delays reported.</description></bsa></root>'') =
    CallbackResult \<lparr>bsa = Array [Object ''No delays reported.'']\<rparr>"
  using getServiceAnnouncements_single_to_list
    [of "\<lambda>body. Readable \<lparr>bsa = Object ''No delays reported.''\<rparr> :: (unit, string announcements) parsed"
      "Some ''<root><bsa><description>No delays reported.</description></bsa></root>''"
      "\<lparr>bsa = Object ''No delays reported.''\<rparr>" "''No delays reported.''"]
  by simp

subsection \<open>The duration of a trip\<close>

text \<open>
  The loop over the legs ends without a throw on a station list that has a member
  \<^verbatim>\<open>station\<close> and legs that are objects.
\<close>

lemma getStationName_total:
  "stationList c = Some v \<Longrightarrow> v \<noteq> NoStation \<Longrightarrow> \<exists>n. getStationName c a = Inr n"
  by (cases v) (simp_all add: getStationName_def)

lemma enrichLegs_total:
  "stationList c = Some v \<Longrightarrow> v \<noteq> NoStation \<Longrightarrow> \<forall>m\<in>set ms. \<exists>l. m = Object l \<Longrightarrow>
     \<exists>ls. enrichLegs c ms = Inr ls"
proof (induction ms)
  case Nil
  then show ?case by simp
next
  case (Cons m ms)
  then obtain l where "m = Object l" by auto
  moreover obtain n1 n2 n3 where "getStationName c (origin l) = Inr n1"
      "getStationName c (destination l) = Inr n2" "getStationName c (trainHeadStation l) = Inr n3"
    using getStationName_total [OF Cons.prems(1,2)] by metis
  ultimately have "\<exists>m'. enrichLeg c m = Inr m'"
    by (simp add: enrichLeg_def)
  moreover from Cons have "\<exists>ls. enrichLegs c ms = Inr ls" by simp
  ultimately show ?case by auto
qed

text \<open>
  Claim C7. For a schedule reply that \<^verbatim>\<open>getConnectionData\<close> parses (the request did
  not fail, the station list is loaded and has its member \<^verbatim>\<open>station\<close>, the legs are
  objects), the callback gets a
  \<^verbatim>\<open>null\<close> error and a trip whose duration is the difference of the two parsed dates,
  arrival minus departure, divided by 60000: when the dates are \<open>m\<close> minutes apart the
  duration is \<open>m\<close>.
\<close>

theorem getConnectionData_duration:
  assumes "xmlParser body = Readable t"
    and "stationList c = Some v"
    and "v \<noteq> NoStation"
    and "\<forall>m\<in>set (elements (legs t)). \<exists>l. m = Object l"
  shows "\<exists>r. getConnectionData Date xmlParser None body c = CallbackResult r \<and>
      duration r =
        Some (num2 (/)
          (num2 (-) (Date (destTimeDate t @ '' '' @ destTimeMin t))
                    (Date (js_trim (origTimeDate t) @ '' '' @ origTimeMin t)))
          (Num 60000)) \<and>
      (\<forall>a m. Date (js_trim (origTimeDate t) @ '' '' @ origTimeMin t) = Num a \<and>
             Date (destTimeDate t @ '' '' @ destTimeMin t) = Num (a + m * 60000) \<longrightarrow>
             duration r = Some (Num m))"
proof -
  obtain ls where "enrichLegs c (elements (legs t)) = Inr ls"
    using enrichLegs_total [OF assms(2,3,4)] by blast
  with assms(1) show ?thesis
    by (simp add: getConnectionData_def Let_def)
qed

text \<open>Claim C7 on a leg that leaves at 08:00 and arrives at 08:35 on one day: 35.\<close>

theorem getConnectionData_duration_witness:
  "exampleTripParser (Some ''<root/>'') = Readable exampleTrip \<and>
   js_trim (origTimeDate exampleTrip) @ '' '' @ origTimeMin exampleTrip = ''11/03/2026 08:00 AM'' \<and>
   destTimeDate exampleTrip @ '' '' @ destTimeMin exampleTrip = ''11/03/2026 08:35 AM'' \<and>
   stationList (cacheOf [oakland12th, coliseum]) = Some (StationArray [oakland12th, coliseum]) \<and>
   (\<exists>r. getConnectionData exampleDate exampleTripParser None
          (Some ''<root/>'') (cacheOf [oakland12th, coliseum]) = CallbackResult r \<and>
        duration r = Some (Num 35))"
proof -
  have p: "exampleTripParser (Some ''<root/>'') = Readable exampleTrip"
    by (simp add: exampleTripParser_def)
  have c: "stationList (cacheOf [oakland12th, coliseum]) = Some (StationArray [oakland12th, coliseum])"
    by (simp add: cacheOf_def)
  have v: "StationArray [oakland12th, coliseum] \<noteq> NoStation"
    by simp
  have l: "\<forall>m\<in>set (elements (legs exampleTrip)). \<exists>l. m = Object l"
    by (simp add: exampleTrip_def)
  have s: "js_trim (origTimeDate exampleTrip) @ '' '' @ origTimeMin exampleTrip = ''11/03/2026 08:00 AM''"
    by (simp add: exampleTrip_def js_trim_def isWhiteSpace_def)
  have e: "destTimeDate exampleTrip @ '' '' @ destTimeMin exampleTrip = ''11/03/2026 08:35 AM''"
    by (simp add: exampleTrip_def)
  have d1: "exampleDate ''11/03/2026 08:00 AM'' = Num 1793692800000"
    by (simp add: exampleDate_def js_split_def numberOf_def daysFromCivil_def Let_def)
  have d2: "exampleDate ''11/03/2026 08:35 AM'' = Num 1793694900000"
    by (simp add: exampleDate_def js_split_def numberOf_def daysFromCivil_def Let_def)
  show ?thesis
    using getConnectionData_duration [of exampleTripParser "Some ''<root/>''", OF p c v l, of exampleDate] p
    unfolding s e d1 d2 using c by auto
qed

subsection \<open>The fan-out, batch by batch\<close>

text \<open>
  A reply of one batch changes neither the array, the count nor the slot of the other,
  so each batch of a run is the run of that batch alone.
\<close>

lemma onReplies_access:
  "(accessBatch (onReplies accessParser infoParser accessReply infoReply stations arrivals st),
    stationAccess (infoCache (onReplies accessParser infoParser accessReply infoReply stations arrivals st))) =
   batchRun (length stations)
     (\<lambda>i. stationDetail accessParser (stationAccessURL (stations ! i)) (accessReply i))
     (arrivalsOf Access arrivals) (accessBatch st, stationAccess (infoCache st))"
proof (induction arrivals arbitrary: st)
  case Nil
  then show ?case by (simp add: arrivalsOf_def)
next
  case (Cons a arrivals)
  obtain k i where a: "a = (k, i)" by (cases a)
  show ?case
    unfolding a onReplies.simps Cons.IH
    by (cases k) (simp_all add: arrivalsOf_def onReply_def Let_def split: sum.splits)
qed

lemma onReplies_info:
  "(infoBatch (onReplies accessParser infoParser accessReply infoReply stations arrivals st),
    stationInfo (infoCache (onReplies accessParser infoParser accessReply infoReply stations arrivals st))) =
   batchRun (length stations)
     (\<lambda>i. stationDetail infoParser (stationInfoURL (stations ! i)) (infoReply i))
     (arrivalsOf Info arrivals) (infoBatch st, stationInfo (infoCache st))"
proof (induction arrivals arbitrary: st)
  case Nil
  then show ?case by (simp add: arrivalsOf_def)
next
  case (Cons a arrivals)
  obtain k i where a: "a = (k, i)" by (cases a)
  show ?case
    unfolding a onReplies.simps Cons.IH
    by (cases k) (simp_all add: arrivalsOf_def onReply_def Let_def split: sum.splits)
qed

text \<open>With no request sent, no arrival changes the state.\<close>

lemma onReplies_no_request:
  "onReplies accessParser infoParser accessReply infoReply [] arrivals st = st"
proof (induction arrivals arbitrary: st)
  case Nil
  then show ?case by simp
next
  case (Cons a arrivals)
  obtain k i where a: "a = (k, i)" by (cases a)
  show ?case
    unfolding a onReplies.simps Cons.IH
    by (cases k) (simp_all add: onReply_def)
qed

text \<open>
  The sorted array has the entries of the array, the documents in the order of their
  names before the entries that are \<^verbatim>\<open>undefined\<close>.
\<close>

lemma mset_sortBy_name: "mset (sortBy_name xs) = mset xs"
proof -
  have "image_mset Some (mset (List.map_filter (\<lambda>x. x) xs)) + filter_mset (\<lambda>x. x = None) (mset xs) =
      mset xs"
  proof (induction xs)
    case Nil
    then show ?case by (simp add: List.map_filter_simps)
  next
    case (Cons x xs)
    then show ?case by (cases x) (simp_all add: List.map_filter_simps)
  qed
  then show ?thesis
    by (simp add: sortBy_name_def)
qed

lemma length_sortBy_name: "length (sortBy_name xs) = length xs"
  using arg_cong [OF mset_sortBy_name [of xs], of size] by simp

lemma documents_sortBy_name:
  "List.map_filter (\<lambda>x. x) (sortBy_name xs) = sort_key detail_name (List.map_filter (\<lambda>x. x) xs)"
proof -
  have "filter (\<lambda>x. x = None \<and> (\<exists>y. x = Some y)) xs = []"
    by (induction xs) auto
  then show ?thesis
    by (simp add: sortBy_name_def List.map_filter_def o_def)
qed

lemma sortBy_name_documents: "sortBy_name (map Some ds) = map Some (sort_key detail_name ds)"
  by (simp add: sortBy_name_def List.map_filter_def o_def)

text \<open>
  A batch in which no callback throws: the array grows in the order of arrival, and the
  slot is written, with the sorted array, by the reply that completes the count.
\<close>

lemma batchRun_all_counted:
  "\<forall>i\<in>set is. i < n \<and> fetch i = Inr (entry i) \<Longrightarrow> completed b + length is \<le> n \<Longrightarrow>
     batchRun n fetch is (b, slot) =
       (\<lparr>collected = collected b @ map entry is, completed = completed b + length is\<rparr>,
        if is \<noteq> [] \<and> completed b + length is = n
        then Some (sortBy_name (collected b @ map entry is)) else slot)"
proof (induction "is" arbitrary: b slot)
  case Nil
  then show ?case by simp
next
  case (Cons i "is")
  then have i: "i < n" "fetch i = Inr (entry i)" and rest: "\<forall>i\<in>set is. i < n \<and> fetch i = Inr (entry i)"
    by simp_all
  define b' where "b' = \<lparr>collected = collected b @ [entry i], completed = completed b + 1\<rparr>"
  have le: "completed b' + length is \<le> n"
    using Cons.prems(2) by (simp add: b'_def)
  show ?case
  proof (cases "is = []")
    case True
    with i show ?thesis by (simp add: Let_def)
  next
    case False
    then have "completed b + 1 \<noteq> n"
      using Cons.prems(2) by (cases "is") simp_all
    with i Cons.IH [OF rest le, of slot] False show ?thesis
      by (simp add: Let_def b'_def)
  qed
qed

text \<open>A batch whose count stays below the number of requests leaves its slot as it was.\<close>

lemma batchRun_keeps_slot:
  "completed b + length (filter (\<lambda>i. i < n \<and> \<not> isl (fetch i)) is) < n \<Longrightarrow>
     snd (batchRun n fetch is (b, slot)) = slot"
proof (induction "is" arbitrary: b)
  case Nil
  then show ?case by simp
next
  case (Cons i "is")
  show ?case
  proof (cases "i < n \<and> \<not> isl (fetch i)")
    case True
    then obtain d where d: "fetch i = Inr d"
      by (cases "fetch i") simp_all
    define b' where "b' = \<lparr>collected = collected b @ [d], completed = completed b + 1\<rparr>"
    from Cons.prems True
    have "completed b' + length (filter (\<lambda>i. i < n \<and> \<not> isl (fetch i)) is) < n"
      by (simp add: b'_def)
    from Cons.IH [OF this] True d Cons.prems show ?thesis
      by (simp add: Let_def b'_def)
  next
    case False
    with Cons.prems
    have "completed b + length (filter (\<lambda>i. i < n \<and> \<not> isl (fetch i)) is) < n"
      by simp
    from Cons.IH [OF this] False show ?thesis
      by (cases "fetch i") (auto simp: not_less)
  qed
qed

text \<open>When the callback of one of the \<open>n\<close> requests throws, fewer than \<open>n\<close> count.\<close>

lemma counted_replies_below:
  assumes "distinct is" and "j < n" and "isl (fetch j)"
  shows "length (filter (\<lambda>i. i < n \<and> \<not> isl (fetch i)) is) < n"
proof -
  let ?ok = "filter (\<lambda>i. i < n \<and> \<not> isl (fetch i)) is"
  have "distinct ?ok"
    using assms(1) by simp
  then have "length ?ok = card (set ?ok)"
    by (rule distinct_card [symmetric])
  also have "set ?ok \<subseteq> {..<n} - {j}"
    using assms(3) by auto
  then have "card (set ?ok) \<le> card ({..<n} - {j})"
    by (intro card_mono) simp_all
  also have "card ({..<n} - {j}) < n"
    using assms(2) by simp
  finally show ?thesis .
qed

lemma distinct_arrivalsOf: "distinct arrivals \<Longrightarrow> distinct (arrivalsOf k arrivals)"
  by (auto simp: arrivalsOf_def distinct_map inj_on_def prod_eq_iff)

lemma arrivalsOf_all:
  "mset arrivals = mset (List.product [Access, Info] [0..<n]) \<Longrightarrow>
     mset (arrivalsOf k arrivals) = mset [0..<n]"
proof -
  assume a: "mset arrivals = mset (List.product [Access, Info] [0..<n])"
  have "mset (arrivalsOf k arrivals) = image_mset snd (filter_mset (\<lambda>a. fst a = k) (mset arrivals))"
    by (simp add: arrivalsOf_def)
  also have "\<dots> = mset (map snd (filter (\<lambda>a. fst a = k) (List.product [Access, Info] [0..<n])))"
    unfolding a by simp
  also have "\<dots> = mset [0..<n]"
    by (cases k) (simp_all add: filter_map o_def)
  finally show ?thesis .
qed

subsection \<open>The aggregates after a fan-out\<close>

text \<open>
  On a station list that is an array, when every reply of the fan-out has arrived, in
  whatever order, and no callback has thrown, the station access slot and the station info
  slot each hold the entries the callbacks pushed, one for each station of the array: the
  documents sorted by name, and \<^verbatim>\<open>undefined\<close> for each reply without a station.
\<close>

lemma fanOut_array_aggregates:
  assumes sl: "stationList c = Some (StationArray stations)"
    and arr: "mset arrivals = mset (List.product [Access, Info] [0..<length stations])"
    and okA: "\<forall>i<length stations.
        stationDetail accessParser (stationAccessURL (stations ! i)) (accessReply i) = Inr (accessEntry i)"
    and okI: "\<forall>i<length stations.
        stationDetail infoParser (stationInfoURL (stations ! i)) (infoReply i) = Inr (infoEntry i)"
  shows "\<exists>st access info.
      getStationInfoAndAccess accessParser infoParser accessReply infoReply arrivals c = Inr st \<and>
      stationAccess (infoCache st) = Some access \<and> stationInfo (infoCache st) = Some info \<and>
      mset access = mset (map accessEntry [0..<length stations]) \<and>
      mset info = mset (map infoEntry [0..<length stations]) \<and>
      length access = length stations \<and> length info = length stations \<and>
      sorted (map detail_name (List.map_filter (\<lambda>x. x) access)) \<and>
      sorted (map detail_name (List.map_filter (\<lambda>x. x) info))"
proof -
  define n where "n = length stations"
  define c0 where "c0 = (if stations = [] then c\<lparr>stationAccess := Some [], stationInfo := Some []\<rparr> else c)"
  define st0 :: "'a fanOut" where "st0 =
    \<lparr>infoCache = c0, accessBatch = \<lparr>collected = [], completed = 0\<rparr>,
     infoBatch = \<lparr>collected = [], completed = 0\<rparr>, uncaught = []\<rparr>"
  define st where "st = onReplies accessParser infoParser accessReply infoReply stations arrivals st0"
  have run: "getStationInfoAndAccess accessParser infoParser accessReply infoReply arrivals c = Inr st"
    using sl by (simp add: getStationInfoAndAccess_def st_def st0_def c0_def)
  have slots: "\<exists>xs. slot = Some xs \<and> mset xs = mset (map entry [0..<n]) \<and> length xs = n \<and>
      sorted (map detail_name (List.map_filter (\<lambda>x. x) xs))"
    if all: "mset is = mset [0..<n]"
      and ok: "\<forall>i<n. fetch i = Inr (entry i)"
      and empty: "n = 0 \<longrightarrow> slot0 = Some []"
      and res: "(b, slot) = batchRun n fetch is (\<lparr>collected = [], completed = 0\<rparr>, slot0)"
    for "is" fetch entry slot0 b slot
  proof -
    have len: "length is = n"
      using all by (metis length_upt mset_eq_length minus_nat.diff_0)
    have mem: "\<forall>i\<in>set is. i < n \<and> fetch i = Inr (entry i)"
      using ok mset_eq_setD [OF all] by simp
    have m: "mset (map entry is) = mset (map entry [0..<n])"
      using all by (metis mset_map)
    show ?thesis
    proof (cases "n = 0")
      case True
      with len empty res show ?thesis by (simp add: List.map_filter_simps)
    next
      case False
      with len have "is \<noteq> []" by auto
      with res len batchRun_all_counted [OF mem, of "\<lparr>collected = [], completed = 0\<rparr>" slot0]
      have "slot = Some (sortBy_name (map entry is))"
        by simp
      with m len show ?thesis
        by (simp add: mset_sortBy_name length_sortBy_name documents_sortBy_name)
    qed
  qed
  have eA: "n = 0 \<longrightarrow> stationAccess (infoCache st0) = Some []"
    and eI: "n = 0 \<longrightarrow> stationInfo (infoCache st0) = Some []"
    by (simp_all add: st0_def c0_def n_def)
  have bA: "accessBatch st0 = \<lparr>collected = [], completed = 0\<rparr>"
    and bI: "infoBatch st0 = \<lparr>collected = [], completed = 0\<rparr>"
    by (simp_all add: st0_def)
  obtain access where access: "stationAccess (infoCache st) = Some access"
      "mset access = mset (map accessEntry [0..<n])" "length access = n"
      "sorted (map detail_name (List.map_filter (\<lambda>x. x) access))"
    using slots [OF arrivalsOf_all [OF arr [folded n_def]] okA [folded n_def] eA
        onReplies_access [of accessParser infoParser accessReply infoReply stations arrivals st0,
          folded st_def n_def, unfolded bA]]
    by blast
  obtain info where info: "stationInfo (infoCache st) = Some info"
      "mset info = mset (map infoEntry [0..<n])" "length info = n"
      "sorted (map detail_name (List.map_filter (\<lambda>x. x) info))"
    using slots [OF arrivalsOf_all [OF arr [folded n_def]] okI [folded n_def] eI
        onReplies_info [of accessParser infoParser accessReply infoReply stations arrivals st0,
          folded st_def n_def, unfolded bI]]
    by blast
  from run access info show ?thesis
    unfolding n_def by blast
qed

text \<open>
  Claim C3. After a fan-out over a refreshed station list, the station info slot and the
  station access slot each hold one entry for each station of the list, sorted by name.
  When the refreshed list has one station, its member \<^verbatim>\<open>station\<close> is that station and
  not an array: the loop that builds the URLs does not run, no request is sent, the final
  function of each batch runs at once, and both slots hold the empty array, whatever
  arrives afterwards.
\<close>

theorem fanOut_one_station_empty_aggregates:
  "getStationInfoAndAccess accessParser infoParser accessReply infoReply arrivals
       (c\<lparr>stationList := Some (OneStation s)\<rparr>) =
     Inr \<lparr>infoCache = c\<lparr>stationList := Some (OneStation s),
                          stationAccess := Some [], stationInfo := Some []\<rparr>,
          accessBatch = \<lparr>collected = [], completed = 0\<rparr>,
          infoBatch = \<lparr>collected = [], completed = 0\<rparr>,
          uncaught = []\<rparr>"
  by (simp add: getStationInfoAndAccess_def onReplies_no_request)

subsection \<open>A failed fetch in a fan-out\<close>

text \<open>
  Claim C4, as stated: when a fetch of a batch fails, the slot keeps its value or gets
  entries fetched with success only. A reply whose \<^verbatim>\<open>stations\<close> element is empty has no
  station: its callback pushes \<^verbatim>\<open>undefined\<close> and counts. With such a reply for the second
  of two stations, the station access slot, which held a document, gets the array of the
  first document and \<^verbatim>\<open>undefined\<close>.
\<close>

theorem fanOut_empty_reply_overwrites_slot:
  "map_sum id (stationAccess \<circ> infoCache)
     (getStationInfoAndAccess namedDetailParser namedDetailParser secondEmpty nameReply
        [(Info, 1), (Access, 1), (Access, 0), (Info, 0)]
        ((cacheOf [oakland12th, coliseum])\<lparr>stationAccess := Some [Some (namedDetail ''Coliseum'')]\<rparr>)) =
     Inr (Some [Some (namedDetail ''12th St. Oakland City Center''), None])"
  by (simp add: getStationInfoAndAccess_def cacheOf_def onReply_def stationDetail_def
      stationAccessURL_def stationInfoURL_def oakland12th_def coliseum_def secondEmpty_def
      nameReply_def namedDetailParser_def namedDetail_def js_split_def sortBy_name_def
      List.map_filter_simps Let_def)

text \<open>
  Claim C4, amended. On a station list that is an array, in a fan-out in which the
  callback of some request of a batch throws (the request failed and gave no body, or the
  parser gave no document with a \<^verbatim>\<open>stations\<close> element), the slot of that batch keeps the
  value it had, however many of the replies have arrived and in whatever order: the
  callback throws before it counts, so the final function of the batch never runs.
\<close>

theorem fanOut_thrown_callback_keeps_slot:
  assumes sl: "stationList c = Some (StationArray stations)"
    and arr: "distinct arrivals"
  shows "\<exists>st. getStationInfoAndAccess accessParser infoParser accessReply infoReply arrivals c = Inr st \<and>
      ((\<exists>j<length stations.
          isl (stationDetail accessParser (stationAccessURL (stations ! j)) (accessReply j))) \<longrightarrow>
       stationAccess (infoCache st) = stationAccess c) \<and>
      ((\<exists>j<length stations.
          isl (stationDetail infoParser (stationInfoURL (stations ! j)) (infoReply j))) \<longrightarrow>
       stationInfo (infoCache st) = stationInfo c)"
proof -
  define c0 where "c0 = (if stations = [] then c\<lparr>stationAccess := Some [], stationInfo := Some []\<rparr> else c)"
  define st0 :: "'a fanOut" where "st0 =
    \<lparr>infoCache = c0, accessBatch = \<lparr>collected = [], completed = 0\<rparr>,
     infoBatch = \<lparr>collected = [], completed = 0\<rparr>, uncaught = []\<rparr>"
  define st where "st = onReplies accessParser infoParser accessReply infoReply stations arrivals st0"
  have run: "getStationInfoAndAccess accessParser infoParser accessReply infoReply arrivals c = Inr st"
    using sl by (simp add: getStationInfoAndAccess_def st_def st0_def c0_def)
  have keep: "snd (batchRun (length stations) fetch (arrivalsOf k arrivals)
        (\<lparr>collected = [], completed = 0\<rparr>, slot)) = slot"
    if "j < length stations" "isl (fetch j)" for fetch k slot j
    using batchRun_keeps_slot [of "\<lparr>collected = [], completed = 0\<rparr>" "length stations" fetch
        "arrivalsOf k arrivals" slot]
      counted_replies_below [of "arrivalsOf k arrivals" j "length stations" fetch,
        OF distinct_arrivalsOf [OF arr] that]
    by simp
  have a: "stationAccess (infoCache st) = stationAccess c"
    if "j < length stations"
      "isl (stationDetail accessParser (stationAccessURL (stations ! j)) (accessReply j))" for j
  proof -
    let ?fetch = "\<lambda>i. stationDetail accessParser (stationAccessURL (stations ! i)) (accessReply i)"
    from that(1) have ne: "stations \<noteq> []"
      by auto
    have "stationAccess (infoCache st) =
        snd (batchRun (length stations) ?fetch (arrivalsOf Access arrivals)
          (accessBatch st0, stationAccess (infoCache st0)))"
      using arg_cong [OF onReplies_access
          [of accessParser infoParser accessReply infoReply stations arrivals st0], of snd]
      by (simp add: st_def)
    also have "(accessBatch st0, stationAccess (infoCache st0)) =
        (\<lparr>collected = [], completed = 0\<rparr>, stationAccess c)"
      using ne by (simp add: st0_def c0_def)
    also have "snd (batchRun (length stations) ?fetch (arrivalsOf Access arrivals)
        (\<lparr>collected = [], completed = 0\<rparr>, stationAccess c)) = stationAccess c"
      using that by (rule keep)
    finally show ?thesis .
  qed
  have i: "stationInfo (infoCache st) = stationInfo c"
    if "j < length stations"
      "isl (stationDetail infoParser (stationInfoURL (stations ! j)) (infoReply j))" for j
  proof -
    let ?fetch = "\<lambda>i. stationDetail infoParser (stationInfoURL (stations ! i)) (infoReply i)"
    from that(1) have ne: "stations \<noteq> []"
      by auto
    have "stationInfo (infoCache st) =
        snd (batchRun (length stations) ?fetch (arrivalsOf Info arrivals)
          (infoBatch st0, stationInfo (infoCache st0)))"
      using arg_cong [OF onReplies_info
          [of accessParser infoParser accessReply infoReply stations arrivals st0], of snd]
      by (simp add: st_def)
    also have "(infoBatch st0, stationInfo (infoCache st0)) =
        (\<lparr>collected = [], completed = 0\<rparr>, stationInfo c)"
      using ne by (simp add: st0_def c0_def)
    also have "snd (batchRun (length stations) ?fetch (arrivalsOf Info arrivals)
        (\<lparr>collected = [], completed = 0\<rparr>, stationInfo c)) = stationInfo c"
      using that by (rule keep)
    finally show ?thesis .
  qed
  from run a i show ?thesis
    by blast
qed

text \<open>
  Claim C4, amended, on two stations, with a station access slot already filled and no
  body in the reply to the access request for the second station: the access slot keeps
  its value, the info slot gets the two documents, and one \<^verbatim>\<open>TypeError\<close> is thrown.
\<close>

theorem fanOut_thrown_callback_keeps_slot_witness:
  "stationList ((cacheOf [oakland12th, coliseum])\<lparr>stationAccess := Some [Some (namedDetail ''Coliseum'')]\<rparr>) =
     Some (StationArray [oakland12th, coliseum]) \<and>
   distinct [(Info, 1), (Access, 1), (Access, 0), (Info, 0 :: nat)] \<and>
   1 < length [oakland12th, coliseum] \<and>
   isl (stationDetail namedDetailParser (stationAccessURL ([oakland12th, coliseum] ! 1)) (secondMissing 1)) \<and>
   (\<exists>st. getStationInfoAndAccess namedDetailParser namedDetailParser secondMissing nameReply
            [(Info, 1), (Access, 1), (Access, 0), (Info, 0)]
            ((cacheOf [oakland12th, coliseum])\<lparr>stationAccess := Some [Some (namedDetail ''Coliseum'')]\<rparr>) =
          Inr st \<and>
         stationAccess (infoCache st) = Some [Some (namedDetail ''Coliseum'')] \<and>
         stationInfo (infoCache st) =
           Some [Some (namedDetail ''12th St. Oakland City Center''), Some (namedDetail ''Coliseum'')] \<and>
         uncaught st = [TypeError])"
proof -
  let ?c = "(cacheOf [oakland12th, coliseum])\<lparr>stationAccess := Some [Some (namedDetail ''Coliseum'')]\<rparr>"
  let ?run = "getStationInfoAndAccess namedDetailParser namedDetailParser secondMissing nameReply
      [(Info, 1), (Access, 1), (Access, 0), (Info, 0)] ?c :: js_error + unit fanOut"
  have sl: "stationList ?c = Some (StationArray [oakland12th, coliseum])"
    by (simp add: cacheOf_def)
  have arr: "distinct [(Info, 1), (Access, 1), (Access, 0), (Info, 0 :: nat)]"
    by simp
  have j: "1 < length [oakland12th, coliseum]"
    by simp
  have bad: "isl (stationDetail namedDetailParser (stationAccessURL ([oakland12th, coliseum] ! 1))
      (secondMissing 1))"
    by (simp add: stationDetail_def stationAccessURL_def coliseum_def secondMissing_def)
  obtain st where st: "?run = Inr st"
    and keep: "(\<exists>j<length [oakland12th, coliseum].
        isl (stationDetail namedDetailParser (stationAccessURL ([oakland12th, coliseum] ! j))
          (secondMissing j))) \<longrightarrow> stationAccess (infoCache st) = stationAccess ?c"
    using fanOut_thrown_callback_keeps_slot [OF sl arr, of namedDetailParser namedDetailParser
        secondMissing nameReply]
    by blast
  from keep j bad have access: "stationAccess (infoCache st) = Some [Some (namedDetail ''Coliseum'')]"
    by (auto simp: cacheOf_def)
  have "map_sum id (\<lambda>st. (stationInfo (infoCache st), uncaught st)) ?run =
      Inr (Some [Some (namedDetail ''12th St. Oakland City Center''), Some (namedDetail ''Coliseum'')],
           [TypeError])"
    by (simp add: getStationInfoAndAccess_def cacheOf_def onReply_def stationDetail_def
        stationAccessURL_def stationInfoURL_def oakland12th_def coliseum_def secondMissing_def
        nameReply_def namedDetailParser_def namedDetail_def js_split_def sortBy_name_def
        List.map_filter_simps Let_def)
  then show ?thesis
    using sl arr j bad access unfolding st by simp
qed

end
